theory Spec2Isabelle
  imports Complex_Main "HOL-Library.AList" "HOL-Library.Log_Nat"
begin


section \<open>JavaScript values\<close>

text \<open>
  The profiler route (backend/routes/profiler.js) and the schema utilities
  (calculateQueryEfficiency) work on documents read from MongoDB. A document is an
  association list from keys to values, in insertion order. Counters that the code does
  arithmetic on are typed \<open>nat option\<close> (\<open>None\<close>: the field is absent); every other
  field is passed through as a \<open>jsval\<close>.

  A JavaScript number is modelled by the rational it denotes. Division and multiplication
  round their exact result to the nearest double (\<open>fl\<close> below); a counter is a number
  that holds a non-negative integer.
\<close>

datatype jsval =
    JUndefined
  | JNull
  | JBool bool
  | JNum rat
  | JStr string
  | JArr "jsval list"
  | JObj "(string \<times> jsval) list"

type_synonym document = "(string \<times> jsval) list"

text \<open>JavaScript truthiness: \<open>undefined\<close>, \<open>null\<close>, \<open>false\<close>, \<open>0\<close> and \<open>""\<close> are falsy;
  every object and array (also an empty one) is truthy.\<close>

fun truthy :: "jsval \<Rightarrow> bool" where
  "truthy JUndefined = False"
| "truthy JNull = False"
| "truthy (JBool b) = b"
| "truthy (JNum n) = (n \<noteq> 0)"
| "truthy (JStr s) = (s \<noteq> [])"
| "truthy (JArr xs) = True"
| "truthy (JObj kvs) = True"

text \<open>\<open>a || b\<close>: the first operand when it is truthy, the second otherwise.\<close>

definition jsOr :: "jsval \<Rightarrow> jsval \<Rightarrow> jsval" where
  "jsOr a b = (if truthy a then a else b)"

text \<open>\<open>command.k\<close> on a document: \<open>undefined\<close> when the key is absent.\<close>

definition getProp :: "document \<Rightarrow> string \<Rightarrow> jsval" where
  "getProp d k = (case map_of d k of Some v \<Rightarrow> v | None \<Rightarrow> JUndefined)"

fun isArray :: "jsval \<Rightarrow> bool" where
  "isArray (JArr xs) = True"
| "isArray v = False"

text \<open>Decimal rendering of a non-negative integer, as a template literal prints it.\<close>

function showNat :: "nat \<Rightarrow> string" where
  "showNat n =
     (if n < 10 then [''0123456789'' ! n]
      else showNat (n div 10) @ [''0123456789'' ! (n mod 10)])"
  by pat_completeness auto
termination
  by (relation "measure (\<lambda>n. n)") auto

declare showNat.simps [simp del]

text \<open>The own enumerable properties of a value, in the order \<open>Object.keys\<close> and the
  spread operator see them: the entries of an object, the indices of an array or of a
  string, nothing for a number or a boolean. The entries of a \<open>JObj\<close> are held in the
  order in which the object lists them. The code only applies them to the result of
  \<open>x || {}\<close>, which is never \<open>null\<close> or \<open>undefined\<close>.\<close>

fun ownProps :: "jsval \<Rightarrow> document" where
  "ownProps (JObj kvs) = kvs"
| "ownProps (JArr xs) = zip (map showNat [0..<length xs]) xs"
| "ownProps (JStr s) = zip (map showNat [0..<length s]) (map (\<lambda>c. JStr [c]) s)"
| "ownProps v = []"

definition objectKeys :: "jsval \<Rightarrow> string list" where
  "objectKeys v = map fst (ownProps v)"

text \<open>An array index: the canonical decimal string of an integer below \<open>2^32 - 1\<close>.
  JavaScript lists the properties whose keys are array indices first, in ascending order,
  and the other string keys after them in the order of their creation.\<close>

definition arrayIndex :: "string \<Rightarrow> int option" where
  "arrayIndex k =
     (if k \<noteq> [] \<and> list_all (\<lambda>c. c \<in> set ''0123456789'') k
         \<and> (k = ''0'' \<or> hd k \<noteq> CHR ''0'') then
        (let n = fold (\<lambda>c acc. acc * 10 + (of_char c - 48)) k (0::int)
         in if n < 2 ^ 32 - 1 then Some n else None)
      else None)"

definition jsKeyOrder :: "document \<Rightarrow> document" where
  "jsKeyOrder d =
     sort_key (\<lambda>kv. case arrayIndex (fst kv) of Some n \<Rightarrow> n | None \<Rightarrow> 0)
       (filter (\<lambda>kv. arrayIndex (fst kv) \<noteq> None) d)
     @ filter (\<lambda>kv. arrayIndex (fst kv) = None) d"

text \<open>\<open>{ ...a, ...b }\<close>: a new object that receives the properties of \<open>a\<close>, then those of
  \<open>b\<close>; a key of \<open>b\<close> already present takes the value of \<open>b\<close>.\<close>

definition spread2 :: "jsval \<Rightarrow> jsval \<Rightarrow> jsval" where
  "spread2 a b =
     JObj (jsKeyOrder
             (fold (\<lambda>(k, v) d. AList.update k v d) (ownProps a @ ownProps b) []))"

text \<open>Optional numeric fields: \<open>a || b\<close> and \<open>a || 0\<close>.\<close>

fun truthyNum :: "nat option \<Rightarrow> bool" where
  "truthyNum None = False"
| "truthyNum (Some n) = (n \<noteq> 0)"

definition numOr :: "nat option \<Rightarrow> nat option \<Rightarrow> nat option" where
  "numOr a b = (if truthyNum a then a else b)"

definition numOr0 :: "nat option \<Rightarrow> nat" where
  "numOr0 a = (case a of Some n \<Rightarrow> n | None \<Rightarrow> 0)"

subsection \<open>Double-precision arithmetic\<close>

text \<open>Rounding to an integer, a tie going to the even one.\<close>

definition roundHalfEven :: "rat \<Rightarrow> int" where
  "roundHalfEven y =
     (let f = \<lfloor>y\<rfloor>; d = y - of_int f
      in if d < 1 / 2 then f
         else if 1 / 2 < d then f + 1
         else if even f then f else f + 1)"

text \<open>The binary exponent of a positive number: \<open>2 ^ binade a \<le> a < 2 ^ (binade a + 1)\<close>.
  The bit lengths of numerator and denominator give it up to one, the comparison decides.\<close>

definition binade :: "rat \<Rightarrow> int" where
  "binade a =
     (case quotient_of a of
        (p, q) \<Rightarrow>
          (let k = bitlen p - bitlen q
           in if power_int 2 k \<le> a then k else k - 1))"

text \<open>The double nearest to \<open>x\<close> (IEEE 754 binary64, round to nearest, ties to even): the
  significand has 53 bits, so the spacing of doubles around \<open>x\<close> is \<open>2 ^ (binade x - 52)\<close>.
  The exponent range is not modelled (no overflow to \<open>Infinity\<close>, no subnormal numbers):
  with counters below \<open>2 ^ 53\<close> every quotient and product the code forms lies between
  \<open>2 ^ - 53\<close> and \<open>100 * 2 ^ 53\<close>, well inside the range.\<close>

definition fl :: "rat \<Rightarrow> rat" where
  "fl x =
     (if x = 0 then 0
      else (let a = \<bar>x\<bar>; ulp = power_int 2 (binade a - 52)
            in sgn x * (of_int (roundHalfEven (a / ulp)) * ulp)))"

text \<open>\<open>a / b\<close> and \<open>a * b\<close> on numbers. The code divides only by a counter it has found
  different from 0.\<close>

definition jsDiv :: "rat \<Rightarrow> rat \<Rightarrow> rat" where
  "jsDiv a b = fl (a / b)"

definition jsMul :: "rat \<Rightarrow> rat \<Rightarrow> rat" where
  "jsMul a b = fl (a * b)"

text \<open>\<open>Math.round\<close>: the nearest integer, a half rounded up.\<close>

definition Math_round :: "rat \<Rightarrow> int" where
  "Math_round x = \<lfloor>x + 1 / 2\<rfloor>"

text \<open>\<open>x.toFixed(1)\<close> for a non-negative \<open>x\<close>: the decimal with one fractional digit nearest
  to the exact value of the number, the larger one on a tie.\<close>

definition toFixed1 :: "rat \<Rightarrow> string" where
  "toFixed1 x =
     (let n = nat \<lfloor>x * 10 + 1 / 2\<rfloor>
      in showNat (n div 10) @ ''.'' @ showNat (n mod 10))"

section \<open>The profiled operation and the explain result\<close>

datatype docId = NoId | OidId string | StrId string

text \<open>A document of \<open>system.profile\<close> (ProfilerDataSchema).\<close>

record profileDoc =
  doc_id :: docId
  ts :: jsval
  op :: "string option"
  ns :: "string option"
  command :: "document option"
  query :: "document option"
  millis :: "nat option"
  keysExamined :: "nat option"
  docsExamined :: "nat option"
  docsReturned :: "nat option"
  planSummary :: jsval
  client :: jsval
  user :: jsval

text \<open>A node of the stage tree: its own fields, the single child \<open>inputStage\<close> and the
  list of children \<open>inputStages\<close> (each may be absent).\<close>

record stageFields =
  st_stage :: "string option"
  st_executionTimeMillisEstimate :: jsval
  st_works :: jsval
  st_advanced :: jsval
  st_needTime :: jsval
  st_needYield :: jsval
  st_isEOF :: jsval
  st_indexName :: "string option"
  st_direction :: jsval
  st_docsExamined :: jsval
  st_keysExamined :: jsval

datatype rawStage = RawStage
  (nodeFields: stageFields)
  (inputStage: "rawStage option")
  (inputStages: "rawStage list option")

record execStats =
  executionTimeMillis :: "nat option"
  totalKeysExamined :: "nat option"
  totalDocsExamined :: "nat option"
  totalDocsReturned :: "nat option"
  executionStages :: "rawStage option"

record explainResult =
  queryPlanner :: jsval
  executionStats :: "execStats option"
  serverInfo :: jsval

text \<open>\<open>explainResult.executionStats || {}\<close>\<close>

definition emptyStats :: execStats where
  "emptyStats =
     \<lparr>executionTimeMillis = None, totalKeysExamined = None, totalDocsExamined = None,
      totalDocsReturned = None, executionStages = None\<rparr>"

definition statsOrEmpty :: "explainResult \<Rightarrow> execStats" where
  "statsOrEmpty e = (case executionStats e of Some s \<Rightarrow> s | None \<Rightarrow> emptyStats)"

text \<open>\<open>explainResult.executionStats?.executionStages\<close>\<close>

definition stagesOf :: "explainResult \<Rightarrow> rawStage option" where
  "stagesOf e = (case executionStats e of Some s \<Rightarrow> executionStages s | None \<Rightarrow> None)"

section \<open>Helper functions for explain plan analysis\<close>

subsection \<open>extractIndexesUsed\<close>

text \<open>The inner \<open>traverseStages\<close> of \<open>extractIndexesUsed\<close>; the array \<open>indexes\<close> it
  pushes to is passed in and returned.\<close>

fun traverseIndexes :: "rawStage \<Rightarrow> string list \<Rightarrow> string list" where
  "traverseIndexes (RawStage f inp inps) indexes =
     (let indexes1 = (case st_indexName f of
                        Some n \<Rightarrow> if n \<noteq> [] then indexes @ [n] else indexes
                      | None \<Rightarrow> indexes);
          indexes2 = (case inp of
                        Some c \<Rightarrow> traverseIndexes c indexes1
                      | None \<Rightarrow> indexes1)
      in (case inps of
            Some cs \<Rightarrow> fold traverseIndexes cs indexes2
          | None \<Rightarrow> indexes2))"

text \<open>\<open>[...new Set(indexes)]\<close>: a Set keeps the first insertion of each value.\<close>

definition setAdd :: "'a \<Rightarrow> 'a list \<Rightarrow> 'a list" where
  "setAdd x s = (if x \<in> set s then s else s @ [x])"

definition newSet :: "'a list \<Rightarrow> 'a list" where
  "newSet xs = fold setAdd xs []"

definition extractIndexesUsed :: "explainResult \<Rightarrow> string list" where
  "extractIndexesUsed e =
     newSet (case stagesOf e of Some s \<Rightarrow> traverseIndexes s [] | None \<Rightarrow> [])"

subsection \<open>isCollectionScan\<close>

fun checkForCollScan :: "rawStage \<Rightarrow> bool" where
  "checkForCollScan (RawStage f inp inps) =
     (if st_stage f = Some ''COLLSCAN'' then True
      else (case inp of
              Some c \<Rightarrow> checkForCollScan c
            | None \<Rightarrow> (case inps of
                         Some cs \<Rightarrow> list_ex checkForCollScan cs
                       | None \<Rightarrow> False)))"

definition isCollectionScan :: "explainResult \<Rightarrow> bool" where
  "isCollectionScan e =
     (case stagesOf e of Some s \<Rightarrow> checkForCollScan s | None \<Rightarrow> False)"

subsection \<open>calculateEfficiency\<close>

definition calculateEfficiency :: "explainResult \<Rightarrow> profileDoc \<Rightarrow> int" where
  "calculateEfficiency e p =
     (let stats = statsOrEmpty e;
          examined = numOr0 (numOr (totalDocsExamined stats) (docsExamined p));
          returned = numOr0 (numOr (totalDocsReturned stats) (docsReturned p))
      in if examined = 0 then 100
         else if returned = 0 then 0
         else Math_round (jsMul (jsDiv (of_nat returned) (of_nat examined)) 100))"

subsection \<open>generateIndexRecommendations\<close>

record recommendation =
  r_type :: string
  r_priority :: string
  r_message :: string
  r_suggestedIndex :: "jsval option"
  r_reason :: string

text \<open>\<open>command.filter || command.query || command.q || {}\<close>\<close>

definition recFilter :: "document \<Rightarrow> jsval" where
  "recFilter c =
     jsOr (jsOr (jsOr (getProp c ''filter'') (getProp c ''query'')) (getProp c ''q'')) (JObj [])"

text \<open>\<open>command.sort || {}\<close>\<close>

definition recSort :: "document \<Rightarrow> jsval" where
  "recSort c = jsOr (getProp c ''sort'') (JObj [])"

definition missingIndexRec :: "jsval \<Rightarrow> recommendation" where
  "missingIndexRec flt =
     \<lparr>r_type = ''missing_index'', r_priority = ''high'',
      r_message = ''Consider creating an index on the query filter fields'',
      r_suggestedIndex = Some flt,
      r_reason = ''Collection scan detected - query is examining all documents''\<rparr>"

definition sortIndexRec :: "jsval \<Rightarrow> jsval \<Rightarrow> recommendation" where
  "sortIndexRec flt srt =
     \<lparr>r_type = ''sort_index'', r_priority = ''medium'',
      r_message = ''Consider creating an index to support sorting'',
      r_suggestedIndex = Some (spread2 flt srt),
      r_reason = ''Sort operation may benefit from an index''\<rparr>"

definition lowEfficiencyRec :: "nat \<Rightarrow> nat \<Rightarrow> rat \<Rightarrow> recommendation" where
  "lowEfficiencyRec examined returned efficiency =
     \<lparr>r_type = ''low_efficiency'', r_priority = ''medium'',
      r_message = ''Query efficiency is low ('' @ toFixed1 efficiency @ ''%)'',
      r_suggestedIndex = None,
      r_reason = ''Examining '' @ showNat examined @ '' documents to return ''
                 @ showNat returned @ '' results''\<rparr>"

text \<open>The first block of \<open>generateIndexRecommendations\<close>: what a collection scan adds.\<close>

definition scanRecommendations :: "explainResult \<Rightarrow> document \<Rightarrow> recommendation list" where
  "scanRecommendations e c =
     (if isCollectionScan e then
        (let flt = recFilter c; srt = recSort c
         in (if length (objectKeys flt) > 0 then [missingIndexRec flt] else [])
            @ (if length (objectKeys srt) > 0 then [sortIndexRec flt srt] else []))
      else [])"

text \<open>The second block: the efficiency check, on the explain result's counters alone.\<close>

definition efficiencyRecommendations :: "explainResult \<Rightarrow> recommendation list" where
  "efficiencyRecommendations e =
     (let stats = statsOrEmpty e;
          examined = numOr0 (totalDocsExamined stats);
          returned = numOr0 (totalDocsReturned stats)
      in if examined > 0 \<and> returned > 0 then
           (let efficiency = jsMul (jsDiv (of_nat returned) (of_nat examined)) 100
            in if efficiency < 10 then [lowEfficiencyRec examined returned efficiency]
               else [])
         else [])"

definition generateIndexRecommendations ::
  "explainResult \<Rightarrow> document \<Rightarrow> recommendation list" where
  "generateIndexRecommendations e c =
     scanRecommendations e c @ efficiencyRecommendations e"

subsection \<open>extractExecutionStages\<close>

record stageEntry =
  e_stage :: "string option"
  e_depth :: nat
  e_executionTimeMillisEstimate :: jsval
  e_works :: jsval
  e_advanced :: jsval
  e_needTime :: jsval
  e_needYield :: jsval
  e_isEOF :: jsval
  e_indexName :: "string option"
  e_direction :: jsval
  e_docsExamined :: jsval
  e_keysExamined :: jsval

text \<open>The object pushed for one node. \<open>e_indexName = None\<close> is \<open>null\<close>.\<close>

definition stageEntryOf :: "stageFields \<Rightarrow> nat \<Rightarrow> stageEntry" where
  "stageEntryOf f depth =
     \<lparr>e_stage = st_stage f,
      e_depth = depth,
      e_executionTimeMillisEstimate = jsOr (st_executionTimeMillisEstimate f) (JNum 0),
      e_works = jsOr (st_works f) (JNum 0),
      e_advanced = jsOr (st_advanced f) (JNum 0),
      e_needTime = jsOr (st_needTime f) (JNum 0),
      e_needYield = jsOr (st_needYield f) (JNum 0),
      e_isEOF = jsOr (st_isEOF f) (JBool False),
      e_indexName = (case st_indexName f of
                       Some n \<Rightarrow> if n \<noteq> [] then Some n else None
                     | None \<Rightarrow> None),
      e_direction = jsOr (st_direction f) JNull,
      e_docsExamined = jsOr (st_docsExamined f) (JNum 0),
      e_keysExamined = jsOr (st_keysExamined f) (JNum 0)\<rparr>"

text \<open>The inner \<open>traverseStages\<close> of \<open>extractExecutionStages\<close>; the array \<open>stages\<close> it
  pushes to is passed in and returned.\<close>

fun traverseStages :: "rawStage \<Rightarrow> nat \<Rightarrow> stageEntry list \<Rightarrow> stageEntry list" where
  "traverseStages (RawStage f inp inps) depth stages =
     (let stages1 = stages @ [stageEntryOf f depth];
          stages2 = (case inp of
                       Some c \<Rightarrow> traverseStages c (depth + 1) stages1
                     | None \<Rightarrow> stages1)
      in (case inps of
            Some cs \<Rightarrow> fold (\<lambda>s acc. traverseStages s (depth + 1) acc) cs stages2
          | None \<Rightarrow> stages2))"

definition extractExecutionStages :: "explainResult \<Rightarrow> stageEntry list" where
  "extractExecutionStages e =
     (case stagesOf e of Some s \<Rightarrow> traverseStages s 0 [] | None \<Rightarrow> [])"

section \<open>The trend-side efficiency utility\<close>

text \<open>\<open>calculateQueryEfficiency\<close> of the profiler schema utilities, on a profiled document.\<close>

definition calculateQueryEfficiency :: "profileDoc \<Rightarrow> rat" where
  "calculateQueryEfficiency doc =
     (let keysExamined' = numOr0 (keysExamined doc);
          docsExamined' = numOr0 (docsExamined doc);
          docsReturned' = numOr0 (docsReturned doc)
      in if docsExamined' = 0 then 100
         else if docsReturned' = 0 then 0
         else (let efficiency =
                     jsMul (jsDiv (of_nat docsReturned')
                                  (of_nat (max docsExamined' keysExamined'))) 100
               in min 100 (max 0 efficiency)))"

section \<open>GET /api/profiler/explain\<close>

subsection \<open>The storage engine and the driver\<close>

text \<open>A thrown JavaScript \<open>Error\<close>, with its message.\<close>

datatype jsError = Error (errMessage: string)

text \<open>What the route asks the driver to explain: one constructor for each branch of the
  \<open>switch\<close> on \<open>profileDoc.op\<close>, with the arguments the branch computes.\<close>

datatype explainRequest =
    FindReq jsval jsval jsval jsval
  | UpdateManyReq jsval jsval
  | DeleteManyReq jsval
  | CountDocumentsReq jsval
  | AggregateReq jsval
  | FindOnlyReq jsval

text \<open>The two filters the route passes to \<open>findOne\<close> on \<open>system.profile\<close>:
  \<open>{_id: new ObjectId(queryId)}\<close> and
  \<open>{$or: [{_id: queryId}, {'command.comment': queryId}]}\<close>.\<close>

datatype 'oid lookupQuery = ById 'oid | ByIdOrComment string

text \<open>The MongoDB driver and the server behind it are not part of the repository: they are
  parameters of the route. Each call either returns or throws.
  \<open>newObjectId\<close> is the constructor \<open>new ObjectId(queryId)\<close>; \<open>collection\<close> is
  \<open>(db.client ? db.client.db(dbName) : db).collection(collectionName)\<close>; \<open>explain\<close> runs
  \<open>.explain('executionStats')\<close> on the request.\<close>

record ('oid, 'h) engine =
  newObjectId :: "string \<Rightarrow> jsError + 'oid"
  findOne :: "'oid lookupQuery \<Rightarrow> jsError + profileDoc option"
  collection :: "string \<Rightarrow> string \<Rightarrow> jsError + 'h"
  explain :: "'h \<Rightarrow> explainRequest \<Rightarrow> jsError + explainResult"

subsection \<open>Finding the original profiler document\<close>

text \<open>The first \<open>try\<close> block and its \<open>catch\<close>: the second lookup runs when the first
  attempt throws, and only then.\<close>

definition locate :: "('oid, 'h) engine \<Rightarrow> string \<Rightarrow> jsError + profileDoc option" where
  "locate eng queryId =
     (case (case newObjectId eng queryId of
              Inl err \<Rightarrow> Inl err
            | Inr oid \<Rightarrow> findOne eng (ById oid)) of
        Inr profileDoc \<Rightarrow> Inr profileDoc
      | Inl err \<Rightarrow> findOne eng (ByIdOrComment queryId))"

subsection \<open>Query details and namespace\<close>

text \<open>\<open>profileDoc.command || profileDoc.query || {}\<close>\<close>

definition commandOf :: "profileDoc \<Rightarrow> document" where
  "commandOf p =
     (case command p of
        Some c \<Rightarrow> c
      | None \<Rightarrow> (case query p of Some c \<Rightarrow> c | None \<Rightarrow> []))"

text \<open>\<open>s.split(c)\<close>\<close>

fun splitOn :: "char \<Rightarrow> string \<Rightarrow> string list" where
  "splitOn c [] = [[]]"
| "splitOn c (x # xs) =
     (if x = c then [] # splitOn c xs
      else (case splitOn c xs of
              [] \<Rightarrow> [[x]]
            | y # ys \<Rightarrow> (x # y) # ys))"

text \<open>\<open>const [dbName, collectionName] = namespace.split('.', 2)\<close>; \<open>None\<close> is
  \<open>undefined\<close>.\<close>

definition splitNamespace :: "string \<Rightarrow> string \<times> string option" where
  "splitNamespace nspace =
     (case take 2 (splitOn (CHR ''.'') nspace) of
        [] \<Rightarrow> ([], None)
      | [a] \<Rightarrow> (a, None)
      | a # b # rest \<Rightarrow> (a, Some b))"

subsection \<open>The switch on the operation type\<close>

definition UnsupportedAggregationError :: jsError where
  "UnsupportedAggregationError = Error ''Invalid aggregation pipeline''"

definition reconstruct :: "string option \<Rightarrow> document \<Rightarrow> jsError + explainRequest" where
  "reconstruct operation c =
     (if operation = Some ''query'' \<or> operation = Some ''find'' then
        Inr (FindReq (jsOr (jsOr (getProp c ''filter'') (getProp c ''query'')) (JObj []))
                     (jsOr (getProp c ''sort'') (JObj []))
                     (jsOr (getProp c ''limit'') (JNum 0))
                     (jsOr (getProp c ''skip'') (JNum 0)))
      else if operation = Some ''update'' then
        Inr (UpdateManyReq (jsOr (jsOr (getProp c ''q'') (getProp c ''filter'')) (JObj []))
                           (jsOr (jsOr (getProp c ''u'') (getProp c ''update'')) (JObj [])))
      else if operation = Some ''delete'' \<or> operation = Some ''remove'' then
        Inr (DeleteManyReq (jsOr (jsOr (getProp c ''q'') (getProp c ''filter'')) (JObj [])))
      else if operation = Some ''count'' then
        Inr (CountDocumentsReq
               (jsOr (jsOr (getProp c ''query'') (getProp c ''filter'')) (JObj [])))
      else if operation = Some ''aggregate'' then
        (if truthy (getProp c ''pipeline'') \<and> isArray (getProp c ''pipeline'')
         then Inr (AggregateReq (getProp c ''pipeline''))
         else Inl UnsupportedAggregationError)
      else
        Inr (FindOnlyReq (jsOr (jsOr (getProp c ''filter'') (getProp c ''query'')) (JObj []))))"

text \<open>The filter of a request, for the operation types that have one.\<close>

fun requestFilter :: "explainRequest \<Rightarrow> jsval option" where
  "requestFilter (FindReq flt srt lmt skp) = Some flt"
| "requestFilter (UpdateManyReq flt upd) = Some flt"
| "requestFilter (DeleteManyReq flt) = Some flt"
| "requestFilter (CountDocumentsReq flt) = Some flt"
| "requestFilter (AggregateReq pl) = None"
| "requestFilter (FindOnlyReq flt) = Some flt"

subsection \<open>The response\<close>

record errorBody =
  eb_error :: string
  eb_message :: string

record profilerData =
  timestamp :: jsval
  executionTime :: nat
  pd_planSummary :: jsval
  pd_client :: jsval
  pd_user :: jsval

record performance =
  perf_executionTimeMillis :: nat
  perf_totalKeysExamined :: nat
  perf_totalDocsExamined :: nat
  perf_totalDocsReturned :: nat
  indexesUsed :: "string list"
  perf_isCollectionScan :: bool
  efficiency :: int

record explainPlan =
  ep_queryPlanner :: jsval
  ep_executionStats :: execStats
  ep_serverInfo :: jsval
  ep_performance :: performance
  recommendations :: "recommendation list"
  stages :: "stageEntry list"

text \<open>\<open>explainPlan = None\<close> is \<open>explainPlan: null\<close>.\<close>

record explainData =
  d_queryId :: string
  d_namespace :: string
  d_operation :: "string option"
  originalQuery :: document
  explainPlan :: "explainPlan option"
  profilerData :: profilerData

record jsonBody =
  success :: bool
  b_error :: "string option"
  b_message :: "string option"
  b_data :: explainData

text \<open>\<open>res.status(n).json(...)\<close> and \<open>res.json(...)\<close>.\<close>

datatype response = Status nat errorBody | Json jsonBody

definition profilerDataOf :: "profileDoc \<Rightarrow> profilerData" where
  "profilerDataOf p =
     \<lparr>timestamp = ts p, executionTime = numOr0 (millis p),
      pd_planSummary = planSummary p, pd_client = client p, pd_user = user p\<rparr>"

definition performanceOf :: "explainResult \<Rightarrow> profileDoc \<Rightarrow> performance" where
  "performanceOf e p =
     \<lparr>perf_executionTimeMillis =
        numOr0 (numOr (case executionStats e of Some s \<Rightarrow> executionTimeMillis s | None \<Rightarrow> None)
                      (millis p)),
      perf_totalKeysExamined =
        numOr0 (numOr (case executionStats e of Some s \<Rightarrow> totalKeysExamined s | None \<Rightarrow> None)
                      (keysExamined p)),
      perf_totalDocsExamined =
        numOr0 (numOr (case executionStats e of Some s \<Rightarrow> totalDocsExamined s | None \<Rightarrow> None)
                      (docsExamined p)),
      perf_totalDocsReturned =
        numOr0 (numOr (case executionStats e of Some s \<Rightarrow> totalDocsReturned s | None \<Rightarrow> None)
                      (docsReturned p)),
      indexesUsed = extractIndexesUsed e,
      perf_isCollectionScan = isCollectionScan e,
      efficiency = calculateEfficiency e p\<rparr>"

definition explainPlanOf :: "explainResult \<Rightarrow> profileDoc \<Rightarrow> document \<Rightarrow> explainPlan" where
  "explainPlanOf e p cmd =
     \<lparr>ep_queryPlanner = jsOr (queryPlanner e) (JObj []),
      ep_executionStats = statsOrEmpty e,
      ep_serverInfo = jsOr (serverInfo e) (JObj []),
      ep_performance = performanceOf e p,
      recommendations = generateIndexRecommendations e cmd,
      stages = extractExecutionStages e\<rparr>"

text \<open>The body sent when the explain plan was generated.\<close>

definition transformedExplain ::
  "string \<Rightarrow> string \<Rightarrow> profileDoc \<Rightarrow> document \<Rightarrow> explainResult \<Rightarrow> jsonBody" where
  "transformedExplain queryId nspace p cmd e =
     \<lparr>success = True, b_error = None, b_message = None,
      b_data = \<lparr>d_queryId = queryId, d_namespace = nspace, d_operation = op p,
                originalQuery = cmd, explainPlan = Some (explainPlanOf e p cmd),
                profilerData = profilerDataOf p\<rparr>\<rparr>"

text \<open>The body sent by the inner \<open>catch\<close>: partial data with the error's message.\<close>

definition partialResult ::
  "string \<Rightarrow> string \<Rightarrow> profileDoc \<Rightarrow> document \<Rightarrow> jsError \<Rightarrow> jsonBody" where
  "partialResult queryId nspace p cmd explainError =
     \<lparr>success = False, b_error = Some ''Failed to generate explain plan'',
      b_message = Some (errMessage explainError),
      b_data = \<lparr>d_queryId = queryId, d_namespace = nspace, d_operation = op p,
                originalQuery = cmd, explainPlan = None,
                profilerData = profilerDataOf p\<rparr>\<rparr>"

text \<open>The inner \<open>try\<close> block: the switch, then the explain call.\<close>

definition planStep ::
  "('oid, 'h) engine \<Rightarrow> 'h \<Rightarrow> profileDoc \<Rightarrow> document \<Rightarrow> jsError + explainResult" where
  "planStep eng target p cmd =
     (case reconstruct (op p) cmd of
        Inl err \<Rightarrow> Inl err
      | Inr req \<Rightarrow> explain eng target req)"

text \<open>The route from the located document on.\<close>

definition diagnose :: "('oid, 'h) engine \<Rightarrow> string \<Rightarrow> profileDoc \<Rightarrow> response" where
  "diagnose eng queryId p =
     (let cmd = commandOf p in
      case ns p of
        None \<Rightarrow>
          Status 400 \<lparr>eb_error = ''Invalid query data'',
                      eb_message = ''Cannot determine collection from profiler data''\<rparr>
      | Some nspace \<Rightarrow>
          if nspace = [] then
            Status 400 \<lparr>eb_error = ''Invalid query data'',
                        eb_message = ''Cannot determine collection from profiler data''\<rparr>
          else
            (case splitNamespace nspace of
               (dbName, None) \<Rightarrow>
                 Status 400 \<lparr>eb_error = ''Invalid namespace'',
                             eb_message = ''Cannot parse collection from namespace: '' @ nspace\<rparr>
             | (dbName, Some collectionName) \<Rightarrow>
                 if collectionName = [] then
                   Status 400 \<lparr>eb_error = ''Invalid namespace'',
                               eb_message =
                                 ''Cannot parse collection from namespace: '' @ nspace\<rparr>
                 else
                   (case collection eng dbName collectionName of
                      Inl err \<Rightarrow>
                        Status 500 \<lparr>eb_error = ''Failed to retrieve explain plan'',
                                    eb_message = errMessage err\<rparr>
                    | Inr target \<Rightarrow>
                        (case planStep eng target p cmd of
                           Inl explainError \<Rightarrow>
                             Json (partialResult queryId nspace p cmd explainError)
                         | Inr e \<Rightarrow>
                             Json (transformedExplain queryId nspace p cmd e)))))"

text \<open>The answer to a request without a usable \<open>queryId\<close>.\<close>

definition missingParameter :: response where
  "missingParameter =
     Status 400 \<lparr>eb_error = ''Missing required parameter'',
                 eb_message = ''Parameter '' @ [CHR 0x22] @ ''queryId'' @ [CHR 0x22]
                              @ '' is required''\<rparr>"

text \<open>The whole handler; \<open>None\<close> is a request without the \<open>queryId\<close> parameter, and the
  empty string is falsy as well. An error that escapes the located part is answered by the
  outer \<open>catch\<close> with status 500.\<close>

definition explainRoute :: "('oid, 'h) engine \<Rightarrow> string option \<Rightarrow> response" where
  "explainRoute eng q =
     (case q of
        None \<Rightarrow> missingParameter
      | Some queryId \<Rightarrow>
          if queryId = [] then missingParameter
          else
            (case locate eng queryId of
               Inl err \<Rightarrow>
                 Status 500 \<lparr>eb_error = ''Failed to retrieve explain plan'',
                             eb_message = errMessage err\<rparr>
             | Inr None \<Rightarrow>
                 Status 404 \<lparr>eb_error = ''Query not found'',
                             eb_message = ''No profiler data found for queryId: '' @ queryId\<rparr>
             | Inr (Some p) \<Rightarrow> diagnose eng queryId p))"

section \<open>Specification-side notions for the stage tree\<close>

text \<open>The children of a node in their given order: the single child first, then the
  list of children.\<close>

fun children :: "rawStage \<Rightarrow> rawStage list" where
  "children (RawStage f inp inps) =
     (case inp of Some c \<Rightarrow> [c] | None \<Rightarrow> [])
     @ (case inps of Some cs \<Rightarrow> cs | None \<Rightarrow> [])"

text \<open>The total node count of a tree.\<close>

fun nodeCount :: "rawStage \<Rightarrow> nat" where
  "nodeCount (RawStage f inp inps) =
     1 + (case inp of Some c \<Rightarrow> nodeCount c | None \<Rightarrow> 0)
       + (case inps of Some cs \<Rightarrow> sum_list (map nodeCount cs) | None \<Rightarrow> 0)"

text \<open>The nodes of a tree, a node before its descendants.\<close>

fun nodes :: "rawStage \<Rightarrow> rawStage list" where
  "nodes (RawStage f inp inps) =
     RawStage f inp inps
     # (case inp of Some c \<Rightarrow> nodes c | None \<Rightarrow> [])
     @ (case inps of Some cs \<Rightarrow> concat (map nodes cs) | None \<Rightarrow> [])"

text \<open>The pre-order listing the specification describes: one entry for the node, then
  the listings of its children, one level deeper.\<close>

fun preorder :: "nat \<Rightarrow> rawStage \<Rightarrow> stageEntry list" where
  "preorder d (RawStage f inp inps) =
     stageEntryOf f d
     # (case inp of Some c \<Rightarrow> preorder (Suc d) c | None \<Rightarrow> [])
     @ (case inps of Some cs \<Rightarrow> concat (map (preorder (Suc d)) cs) | None \<Rightarrow> [])"

text \<open>The index name of a node where it is present (a non-empty string), as a list of
  at most one name; the names of a tree and of a list of flattened entries, in order.\<close>

definition presentIndexName :: "stageFields \<Rightarrow> string list" where
  "presentIndexName f =
     (case st_indexName f of
        Some n \<Rightarrow> if n \<noteq> [] then [n] else []
      | None \<Rightarrow> [])"

definition treeIndexNames :: "rawStage \<Rightarrow> string list" where
  "treeIndexNames t = concat (map (\<lambda>nd. presentIndexName (nodeFields nd)) (nodes t))"

definition entryIndexNames :: "stageEntry list \<Rightarrow> string list" where
  "entryIndexNames es =
     concat (map (\<lambda>e. case e_indexName e of Some n \<Rightarrow> [n] | None \<Rightarrow> []) es)"

text \<open>The position at which a value first appears in a list.\<close>

definition firstIndex :: "'a list \<Rightarrow> 'a \<Rightarrow> nat" where
  "firstIndex xs x = length (takeWhile (\<lambda>y. y \<noteq> x) xs)"

section \<open>Specification-side notions for the counters\<close>

text \<open>The top-level summary counters of an explain result (\<open>None\<close>: absent, also when
  \<open>executionStats\<close> itself is absent).\<close>

definition summaryDocsExamined :: "explainResult \<Rightarrow> nat option" where
  "summaryDocsExamined e =
     (case executionStats e of Some s \<Rightarrow> totalDocsExamined s | None \<Rightarrow> None)"

definition summaryDocsReturned :: "explainResult \<Rightarrow> nat option" where
  "summaryDocsReturned e =
     (case executionStats e of Some s \<Rightarrow> totalDocsReturned s | None \<Rightarrow> None)"

definition summaryKeysExamined :: "explainResult \<Rightarrow> nat option" where
  "summaryKeysExamined e =
     (case executionStats e of Some s \<Rightarrow> totalKeysExamined s | None \<Rightarrow> None)"

definition summaryTimeMillis :: "explainResult \<Rightarrow> nat option" where
  "summaryTimeMillis e =
     (case executionStats e of Some s \<Rightarrow> executionTimeMillis s | None \<Rightarrow> None)"

text \<open>A counter read as a number: an absent counter counts as 0.\<close>

definition counterValue :: "nat option \<Rightarrow> nat" where
  "counterValue c = (case c of Some n \<Rightarrow> n | None \<Rightarrow> 0)"

text \<open>The efficiency formula of the specification, on two counters, in exact arithmetic:
  100 when nothing was examined, 0 when something was examined and nothing returned,
  \<open>round(100 * returned / examined)\<close> otherwise.\<close>

definition specEfficiency :: "nat \<Rightarrow> nat \<Rightarrow> int" where
  "specEfficiency examined returned =
     (if examined = 0 then 100
      else if returned = 0 then 0
      else round (100 * of_nat returned / of_nat examined :: rat))"

text \<open>The efficiency as the code computes it from two counters: the same cases, with the
  quotient and the product rounded to doubles before \<open>Math.round\<close>.\<close>

definition codeEfficiency :: "nat \<Rightarrow> nat \<Rightarrow> int" where
  "codeEfficiency examined returned =
     (if examined = 0 then 100
      else if returned = 0 then 0
      else Math_round (jsMul (jsDiv (of_nat returned) (of_nat examined)) 100))"

text \<open>The counter a fallback chain ends with: the summary counter when it is present and
  not 0, the recorded counter of the profiled operation otherwise.\<close>

definition effectiveCounter :: "nat option \<Rightarrow> nat option \<Rightarrow> nat" where
  "effectiveCounter summary recorded =
     (if summary = None \<or> summary = Some 0 then counterValue recorded
      else counterValue summary)"

section \<open>Example inputs\<close>

text \<open>A stage node with a name and an optional index name, every counter absent.\<close>

definition exFields :: "string \<Rightarrow> string option \<Rightarrow> stageFields" where
  "exFields name idx =
     \<lparr>st_stage = Some name, st_executionTimeMillisEstimate = JUndefined,
      st_works = JUndefined, st_advanced = JUndefined, st_needTime = JUndefined,
      st_needYield = JUndefined, st_isEOF = JUndefined, st_indexName = idx,
      st_direction = JUndefined, st_docsExamined = JUndefined,
      st_keysExamined = JUndefined\<rparr>"

definition exIxscanA :: rawStage where
  "exIxscanA = RawStage (exFields ''IXSCAN'' (Some ''a_1'')) None None"

definition exIxscanB :: rawStage where
  "exIxscanB = RawStage (exFields ''IXSCAN'' (Some ''b_1'')) None None"

text \<open>FETCH over an OR of three branches; the index \<open>a_1\<close> is used twice.\<close>

definition exOrTree :: rawStage where
  "exOrTree =
     RawStage (exFields ''FETCH'' None)
       (Some (RawStage (exFields ''OR'' None) None
          (Some [exIxscanA, exIxscanB,
                 RawStage (exFields ''FETCH'' None) (Some exIxscanA) None])))
       None"

definition exCollscan :: rawStage where
  "exCollscan = RawStage (exFields ''COLLSCAN'' None) None None"

text \<open>An explain result with the given summary counters and stage tree.\<close>

definition exExplain :: "nat option \<Rightarrow> nat option \<Rightarrow> rawStage \<Rightarrow> explainResult" where
  "exExplain examined returned tree =
     \<lparr>queryPlanner = JUndefined,
      executionStats =
        Some \<lparr>executionTimeMillis = None, totalKeysExamined = None,
              totalDocsExamined = examined, totalDocsReturned = returned,
              executionStages = Some tree\<rparr>,
      serverInfo = JUndefined\<rparr>"

text \<open>A profiled operation with the given type, namespace, command and counters.\<close>

definition exProfile ::
  "string \<Rightarrow> string \<Rightarrow> document \<Rightarrow> nat option \<Rightarrow> nat option \<Rightarrow> nat option \<Rightarrow> profileDoc" where
  "exProfile operation nspace cmd keys examined returned =
     \<lparr>doc_id = NoId, ts = JUndefined, op = Some operation, ns = Some nspace,
      command = Some cmd, query = None, millis = Some 420, keysExamined = keys,
      docsExamined = examined, docsReturned = returned, planSummary = JUndefined,
      client = JUndefined, user = JUndefined\<rparr>"

text \<open>A test double for the driver, like the mock of the route's tests: the profile
  collection is a list of documents, \<open>findOne\<close> returns the first match, an identifier is
  a valid ObjectId when it is 24 hexadecimal digits, and \<open>explain\<close> is a given function.\<close>

definition hexObjectId :: "string \<Rightarrow> jsError + string" where
  "hexObjectId s =
     (if length s = 24 \<and> list_all (\<lambda>c. c \<in> set ''0123456789abcdefABCDEF'') s
      then Inr s
      else Inl (Error ''input must be a 24 character hex string''))"

fun matchesLookup :: "string lookupQuery \<Rightarrow> profileDoc \<Rightarrow> bool" where
  "matchesLookup (ById oid) d = (doc_id d = OidId oid)"
| "matchesLookup (ByIdOrComment s) d =
     (doc_id d = StrId s
      \<or> (case command d of
            Some c \<Rightarrow> getProp c ''comment'' = JStr s
          | None \<Rightarrow> False))"

definition memEngine ::
  "profileDoc list \<Rightarrow> (explainRequest \<Rightarrow> jsError + explainResult)
     \<Rightarrow> (string, string \<times> string) engine" where
  "memEngine docs ex =
     \<lparr>newObjectId = hexObjectId,
      findOne = (\<lambda>q. Inr (List.find (matchesLookup q) docs)),
      collection = (\<lambda>dbName collectionName. Inr (dbName, collectionName)),
      explain = (\<lambda>target req. ex req)\<rparr>"

text \<open>Scenario A of the specification: a slow \<open>find\<close> on \<open>shop.orders\<close>, and the same
  operation logged with a comment that is 24 hexadecimal digits.\<close>

definition exOrders :: profileDoc where
  "exOrders =
     exProfile ''find'' ''shop.orders''
       [(''find'', JStr ''orders''), (''filter'', JObj [(''status'', JStr ''pending'')])]
       (Some 0) (Some 50000) (Some 3)"

definition exTagged :: profileDoc where
  "exTagged =
     exProfile ''find'' ''shop.orders''
       [(''find'', JStr ''orders''), (''filter'', JObj [(''status'', JStr ''pending'')]),
        (''comment'', JStr ''0123456789abcdef01234567'')]
       (Some 0) (Some 50000) (Some 3)"

text \<open>The profile collection holding the tagged operation, and the one holding the
  operation under the string identifier \<open>query_1\<close>; an engine that rejects every explain
  call and one that answers with a collection scan.\<close>

definition exTaggedEngine :: "(string, string \<times> string) engine" where
  "exTaggedEngine = memEngine [exTagged] (\<lambda>req. Inl (Error ''ns does not exist''))"

definition exLogged :: profileDoc where
  "exLogged = exOrders\<lparr>doc_id := StrId ''query_1''\<rparr>"

definition exFailingEngine :: "(string, string \<times> string) engine" where
  "exFailingEngine = memEngine [exLogged] (\<lambda>req. Inl (Error ''ns does not exist''))"


text \<open>Two commands that carry more than the alias their operation type consults: a
  \<open>find\<close> logged with \<open>q\<close>, and an update logged with \<open>q\<close> and an empty \<open>filter\<close>.\<close>

definition exFindWithQ :: document where
  "exFindWithQ = [(''find'', JStr ''orders''), (''q'', JObj [(''a'', JNum 1)])]"

definition exUpdateWithFilter :: document where
  "exUpdateWithFilter =
     [(''q'', JObj [(''a'', JNum 1)]), (''u'', JObj [(''$set'', JObj [(''b'', JNum 2)])]),
      (''filter'', JObj [])]"

section \<open>Properties of the helper functions\<close>

lemma fold_append_blocks:
  assumes "\<And>c acc. c \<in> set cs \<Longrightarrow> f c acc = acc @ g c"
  shows "fold f cs acc = acc @ concat (map g cs)"
  using assms by (induction cs arbitrary: acc) simp_all

lemma traverseStages_preorder: "traverseStages t d acc = acc @ preorder d t"
proof (induction t arbitrary: d acc)
  case (RawStage f inp inps)
  have one: "traverseStages c (Suc d) a = a @ preorder (Suc d) c" if "inp = Some c" for c a
    using RawStage.IH(1) that by simp
  have many: "fold (\<lambda>s. traverseStages s (Suc d)) cs a
                = a @ concat (map (preorder (Suc d)) cs)" if "inps = Some cs" for cs a
    by (rule fold_append_blocks) (use RawStage.IH(2) that in simp)
  show ?case
    by (cases inp; cases inps) (simp_all add: one many)
qed

lemma length_preorder: "length (preorder d t) = nodeCount t"
proof (induction t arbitrary: d)
  case (RawStage f inp inps)
  have one: "length (preorder (Suc d) c) = nodeCount c" if "inp = Some c" for c
    using RawStage.IH(1) that by simp
  have many: "map (length \<circ> preorder (Suc d)) cs = map nodeCount cs" if "inps = Some cs" for cs
    using RawStage.IH(2) that by simp
  show ?case
    by (cases inp; cases inps) (simp_all add: one many length_concat)
qed

lemma preorder_children:
  "preorder d t = stageEntryOf (nodeFields t) d # concat (map (preorder (Suc d)) (children t))"
  by (cases t) (simp split: option.splits)

lemma concat_map_concat:
  "concat (map g (concat xss)) = concat (map (\<lambda>xs. concat (map g xs)) xss)"
  by (induction xss) simp_all

lemma treeIndexNames_node:
  "treeIndexNames (RawStage f inp inps) =
     presentIndexName f
     @ (case inp of Some c \<Rightarrow> treeIndexNames c | None \<Rightarrow> [])
     @ (case inps of Some cs \<Rightarrow> concat (map treeIndexNames cs) | None \<Rightarrow> [])"
proof -
  have fn: "treeIndexNames = (\<lambda>t. concat (map (\<lambda>nd. presentIndexName (nodeFields nd)) (nodes t)))"
    by (rule ext) (simp add: treeIndexNames_def)
  show ?thesis
    by (cases inp; cases inps) (simp_all add: fn concat_map_concat o_def)
qed

lemma traverseIndexes_names: "traverseIndexes t acc = acc @ treeIndexNames t"
proof (induction t arbitrary: acc)
  case (RawStage f inp inps)
  have one: "traverseIndexes c a = a @ treeIndexNames c" if "inp = Some c" for c a
    using RawStage.IH(1) that by simp
  have many: "fold traverseIndexes cs a = a @ concat (map treeIndexNames cs)"
    if "inps = Some cs" for cs a
    by (rule fold_append_blocks) (use RawStage.IH(2) that in simp)
  have own: "(case st_indexName f of
                Some n \<Rightarrow> if n \<noteq> [] then acc @ [n] else acc
              | None \<Rightarrow> acc) = acc @ presentIndexName f"
    by (simp add: presentIndexName_def split: option.splits)
  show ?case
    unfolding treeIndexNames_node traverseIndexes.simps Let_def own
    by (cases inp; cases inps) (simp_all add: one many)
qed

lemma entryIndexNames_Nil: "entryIndexNames [] = []"
  by (simp add: entryIndexNames_def)

lemma entryIndexNames_append:
  "entryIndexNames (xs @ ys) = entryIndexNames xs @ entryIndexNames ys"
  by (simp add: entryIndexNames_def)

lemma entryIndexNames_concat:
  "entryIndexNames (concat xss) = concat (map entryIndexNames xss)"
  by (induction xss) (simp_all add: entryIndexNames_append entryIndexNames_Nil)

lemma entryIndexNames_entry:
  "entryIndexNames (stageEntryOf f d # es) = presentIndexName f @ entryIndexNames es"
  by (simp add: entryIndexNames_def stageEntryOf_def presentIndexName_def split: option.splits)

lemma preorder_names: "entryIndexNames (preorder d t) = treeIndexNames t"
proof (induction t arbitrary: d)
  case (RawStage f inp inps)
  have one: "entryIndexNames (preorder (Suc d) c) = treeIndexNames c" if "inp = Some c" for c
    using RawStage.IH(1) that by simp
  have many: "map (entryIndexNames \<circ> preorder (Suc d)) cs = map treeIndexNames cs"
    if "inps = Some cs" for cs
    using RawStage.IH(2) that by simp
  show ?case
    unfolding treeIndexNames_node
    by (cases inp; cases inps)
       (simp_all add: entryIndexNames_entry entryIndexNames_append entryIndexNames_concat
          entryIndexNames_Nil one many)
qed

lemma set_fold_setAdd: "set (fold setAdd xs s) = set s \<union> set xs"
  by (induction xs arbitrary: s) (auto simp: setAdd_def)

lemma distinct_fold_setAdd: "distinct s \<Longrightarrow> distinct (fold setAdd xs s)"
  by (induction xs arbitrary: s) (auto simp: setAdd_def)

lemma set_newSet: "set (newSet xs) = set xs"
  by (simp add: newSet_def set_fold_setAdd)

lemma distinct_newSet: "distinct (newSet xs)"
  by (simp add: newSet_def distinct_fold_setAdd)

lemma newSet_snoc:
  "newSet (xs @ [x]) = (if x \<in> set xs then newSet xs else newSet xs @ [x])"
  using set_newSet [of xs] by (simp add: newSet_def setAdd_def)

lemma firstIndex_append: "x \<in> set xs \<Longrightarrow> firstIndex (xs @ ys) x = firstIndex xs x"
  by (simp add: firstIndex_def takeWhile_append1)

lemma firstIndex_less: "x \<in> set xs \<Longrightarrow> firstIndex xs x < length xs"
  unfolding firstIndex_def by (induction xs) auto

lemma firstIndex_new: "x \<notin> set xs \<Longrightarrow> firstIndex (xs @ [x]) x = length xs"
  unfolding firstIndex_def by (induction xs) auto

lemma newSet_first_seen:
  "i < j \<Longrightarrow> j < length (newSet xs) \<Longrightarrow>
     firstIndex xs (newSet xs ! i) < firstIndex xs (newSet xs ! j)"
proof (induction xs arbitrary: i j rule: rev_induct)
  case Nil
  then show ?case by (simp add: newSet_def)
next
  case (snoc x xs)
  have mem: "newSet xs ! k \<in> set xs" if "k < length (newSet xs)" for k
    using that set_newSet [of xs] nth_mem by blast
  show ?case
  proof (cases "x \<in> set xs")
    case True
    with snoc.prems have j: "j < length (newSet xs)" by (simp add: newSet_snoc)
    with snoc.prems have i: "i < length (newSet xs)" by simp
    from snoc.IH [OF snoc.prems(1) j] True mem [OF i] mem [OF j]
    show ?thesis by (simp add: newSet_snoc firstIndex_append)
  next
    case False
    with snoc.prems have j: "j \<le> length (newSet xs)" by (simp add: newSet_snoc)
    with snoc.prems have i: "i < length (newSet xs)" by simp
    show ?thesis
    proof (cases "j < length (newSet xs)")
      case True
      from snoc.IH [OF snoc.prems(1) True] False mem [OF i] mem [OF True] i True
      show ?thesis by (simp add: newSet_snoc firstIndex_append nth_append)
    next
      case False2: False
      with j have "j = length (newSet xs)" by simp
      with False i mem [OF i] firstIndex_less [OF mem [OF i]]
      show ?thesis by (simp add: newSet_snoc firstIndex_append firstIndex_new nth_append)
    qed
  qed
qed

subsection \<open>Double-precision arithmetic\<close>

lemma roundHalfEven_error: "\<bar>of_int (roundHalfEven y) - y\<bar> \<le> 1 / 2"
proof -
  have "of_int \<lfloor>y\<rfloor> \<le> y" "y < of_int \<lfloor>y\<rfloor> + 1"
    by linarith+
  then show ?thesis
    by (auto simp: roundHalfEven_def Let_def)
qed

lemma roundHalfEven_nonneg: "0 \<le> y \<Longrightarrow> 0 \<le> roundHalfEven y"
proof -
  assume "0 \<le> y"
  then have "0 \<le> \<lfloor>y\<rfloor>" by simp
  then show ?thesis
    by (auto simp: roundHalfEven_def Let_def)
qed

lemma pow2_pos: "0 < (power_int 2 k :: rat)"
  by simp

lemma binade_bounds:
  assumes "0 < a"
  shows "power_int 2 (binade a) \<le> a" and "a < power_int 2 (binade a + 1)"
proof -
  obtain p q where pq: "quotient_of a = (p, q)" by (cases "quotient_of a")
  then have a: "a = of_int p / of_int q" and q: "0 < q"
    by (simp_all add: quotient_of_div quotient_of_denom_pos)
  from assms a q have p: "0 < p"
    by (simp add: zero_less_divide_iff)
  define lp lq where "lp = bitlen p" and "lq = bitlen q"
  from bitlen_bounds [OF p] have bp: "2 ^ nat (lp - 1) \<le> p" "p < 2 ^ nat lp"
    by (simp_all add: lp_def)
  from bitlen_bounds [OF q] have bq: "2 ^ nat (lq - 1) \<le> q" "q < 2 ^ nat lq"
    by (simp_all add: lq_def)
  have lp1: "1 \<le> lp" using p by (simp add: lp_def bitlen_alt_def)
  have lq1: "1 \<le> lq" using q by (simp add: lq_def bitlen_alt_def)
  have P: "(power_int 2 (lp - 1) :: rat) \<le> of_int p" "of_int p < (power_int 2 lp :: rat)"
  proof -
    have "(of_int (2 ^ nat (lp - 1)) :: rat) \<le> of_int p" using bp(1) by (simp only: of_int_le_iff)
    then show "(power_int 2 (lp - 1) :: rat) \<le> of_int p"
      using lp1 by (simp add: power_int_def)
    have "(of_int p :: rat) < of_int (2 ^ nat lp)" using bp(2) by (simp only: of_int_less_iff)
    then show "of_int p < (power_int 2 lp :: rat)"
      using lp1 by (simp add: power_int_def)
  qed
  have Q: "(power_int 2 (lq - 1) :: rat) \<le> of_int q" "of_int q < (power_int 2 lq :: rat)"
  proof -
    have "(of_int (2 ^ nat (lq - 1)) :: rat) \<le> of_int q" using bq(1) by (simp only: of_int_le_iff)
    then show "(power_int 2 (lq - 1) :: rat) \<le> of_int q"
      using lq1 by (simp add: power_int_def)
    have "(of_int q :: rat) < of_int (2 ^ nat lq)" using bq(2) by (simp only: of_int_less_iff)
    then show "of_int q < (power_int 2 lq :: rat)"
      using lq1 by (simp add: power_int_def)
  qed
  have qpos: "0 < (of_int q :: rat)" using q by simp
  have ppos: "0 < (of_int p :: rat)" using p by simp
  have low: "(power_int 2 (lp - lq - 1) :: rat) \<le> a"
  proof -
    have "(power_int 2 (lp - lq - 1) :: rat) = power_int 2 (lp - 1) / power_int 2 lq"
      by (simp add: power_int_diff [symmetric] algebra_simps)
    also have "\<dots> \<le> of_int p / power_int 2 lq"
      using P(1) pow2_pos [of lq] by (simp add: divide_right_mono)
    also have "\<dots> \<le> of_int p / of_int q"
      using Q(2) qpos ppos by (simp add: frac_le)
    finally show ?thesis by (simp add: a)
  qed
  have high: "a < (power_int 2 (lp - lq + 1) :: rat)"
  proof -
    have "a = of_int p / of_int q" by (rule a)
    also have "\<dots> < power_int 2 lp / of_int q"
      using P(2) qpos by (simp add: divide_strict_right_mono)
    also have "\<dots> \<le> power_int 2 lp / power_int 2 (lq - 1)"
      using Q(1) pow2_pos [of "lq - 1"] pow2_pos [of lp] by (simp add: frac_le)
    also have "\<dots> = (power_int 2 (lp - lq + 1) :: rat)"
      by (simp add: power_int_diff [symmetric] algebra_simps)
    finally show ?thesis .
  qed
  have b: "binade a = (if power_int 2 (lp - lq) \<le> a then lp - lq else lp - lq - 1)"
    by (simp add: binade_def pq Let_def lp_def lq_def)
  show "power_int 2 (binade a) \<le> a"
    using low by (simp add: b)
  show "a < power_int 2 (binade a + 1)"
    using high by (auto simp: b not_le)
qed

lemma fl_nonneg: "0 \<le> x \<Longrightarrow> 0 \<le> fl x"
proof (cases "x = 0")
  case True
  then show ?thesis by (simp add: fl_def)
next
  case False
  assume "0 \<le> x"
  with False have x: "0 < x" by simp
  have "0 \<le> roundHalfEven (x / power_int 2 (binade x - 52))"
    using x pow2_pos [of "binade x - 52"] by (intro roundHalfEven_nonneg) simp
  then show ?thesis
    using x pow2_pos [of "binade x - 52"] by (simp add: fl_def Let_def)
qed

lemma fl_error:
  assumes "0 \<le> x"
  shows "\<bar>fl x - x\<bar> \<le> x / 2 ^ 53"
proof (cases "x = 0")
  case True
  then show ?thesis by (simp add: fl_def)
next
  case False
  with assms have x: "0 < x" by simp
  define ulp :: rat where "ulp = power_int 2 (binade x - 52)"
  define m where "m = roundHalfEven (x / ulp)"
  have ulp: "0 < ulp" by (simp add: ulp_def pow2_pos)
  have flx: "fl x = of_int m * ulp"
    using x by (simp add: fl_def Let_def ulp_def m_def)
  have "ulp = power_int 2 (binade x) / 2 ^ 52"
    by (simp add: ulp_def power_int_diff)
  also have "\<dots> \<le> x / 2 ^ 52"
    using binade_bounds(1) [OF x] by (simp add: divide_right_mono)
  finally have ulp_le: "ulp \<le> x / 2 ^ 52" .
  have "\<bar>of_int m - x / ulp\<bar> \<le> 1 / 2"
    unfolding m_def by (rule roundHalfEven_error)
  then have "\<bar>of_int m - x / ulp\<bar> * ulp \<le> 1 / 2 * ulp"
    using ulp by (simp add: mult_right_mono)
  moreover have "\<bar>of_int m - x / ulp\<bar> * ulp = \<bar>of_int m * ulp - x\<bar>"
  proof -
    have "\<bar>of_int m - x / ulp\<bar> * ulp = \<bar>(of_int m - x / ulp) * ulp\<bar>"
      using ulp by (simp add: abs_mult)
    also have "(of_int m - x / ulp) * ulp = of_int m * ulp - x"
      using ulp by (simp add: algebra_simps)
    finally show ?thesis .
  qed
  ultimately have "\<bar>of_int m * ulp - x\<bar> \<le> ulp / 2" by simp
  also have "\<dots> \<le> x / 2 ^ 53"
    using ulp_le by simp
  finally show ?thesis by (simp add: flx)
qed

lemma percent_error:
  assumes "0 \<le> a"
  shows "\<bar>jsMul (fl a) 100 - 100 * a\<bar> \<le> 300 * a / 2 ^ 53"
    and "0 \<le> jsMul (fl a) 100"
proof -
  have q0: "0 \<le> fl a" using assms by (rule fl_nonneg)
  have e1: "\<bar>fl a - a\<bar> \<le> a / 2 ^ 53" using assms by (rule fl_error)
  have q2: "fl a \<le> 2 * a"
  proof -
    have "a / 2 ^ 53 \<le> a" using assms by (simp add: field_simps)
    with e1 show ?thesis by linarith
  qed
  have p0: "0 \<le> fl a * 100" using q0 by simp
  have e2: "\<bar>fl (fl a * 100) - fl a * 100\<bar> \<le> (fl a * 100) / 2 ^ 53"
    using p0 by (rule fl_error)
  have "(fl a * 100) / 2 ^ 53 \<le> 200 * a / 2 ^ 53"
    using q2 by (simp add: divide_right_mono)
  with e2 have e3: "\<bar>fl (fl a * 100) - fl a * 100\<bar> \<le> 200 * a / 2 ^ 53" by linarith
  have e4: "\<bar>fl a * 100 - 100 * a\<bar> \<le> 100 * a / 2 ^ 53"
  proof -
    have "\<bar>100 * (fl a - a)\<bar> = 100 * \<bar>fl a - a\<bar>"
      by (simp only: abs_mult abs_numeral)
    moreover have "fl a * 100 - 100 * a = 100 * (fl a - a)" by simp
    ultimately have "\<bar>fl a * 100 - 100 * a\<bar> = 100 * \<bar>fl a - a\<bar>"
      by (simp only:)
    also have "\<dots> \<le> 100 * (a / 2 ^ 53)"
      using e1 by (intro mult_left_mono) simp_all
    finally show ?thesis by simp
  qed
  have "\<bar>fl (fl a * 100) - 100 * a\<bar> \<le> 200 * a / 2 ^ 53 + 100 * a / 2 ^ 53"
    using e3 e4 by linarith
  then show "\<bar>jsMul (fl a) 100 - 100 * a\<bar> \<le> 300 * a / 2 ^ 53"
    by (simp add: jsMul_def add_divide_distrib [symmetric])
  show "0 \<le> jsMul (fl a) 100"
    unfolding jsMul_def using p0 by (rule fl_nonneg)
qed

text \<open>The quotient of two counters, times 100, as the code computes it.\<close>

lemma percent_of_counters:
  assumes "0 < examined"
  shows "\<bar>jsMul (jsDiv (of_nat returned) (of_nat examined)) 100
           - 100 * of_nat returned / of_nat examined\<bar>
         \<le> 300 * (of_nat returned / of_nat examined) / 2 ^ 53"
    and "0 \<le> jsMul (jsDiv (of_nat returned) (of_nat examined)) 100"
proof -
  have a: "(0::rat) \<le> of_nat returned / of_nat examined" by simp
  from percent_error [OF a]
  show "\<bar>jsMul (jsDiv (of_nat returned) (of_nat examined)) 100
           - 100 * of_nat returned / of_nat examined\<bar>
         \<le> 300 * (of_nat returned / of_nat examined) / 2 ^ 53"
    and "0 \<le> jsMul (jsDiv (of_nat returned) (of_nat examined)) 100"
    by (simp_all add: jsDiv_def)
qed

subsection \<open>Counters and efficiency\<close>

lemma numOr_effective: "numOr0 (numOr a b) = effectiveCounter a b"
  by (cases a; cases b) (auto simp: numOr0_def numOr_def effectiveCounter_def counterValue_def)

lemma floor_divide_numeral_rat:
  "\<lfloor>numeral a / numeral b :: rat\<rfloor> = numeral a div numeral b"
  using floor_divide_of_int_eq [of "numeral a" "numeral b", where ?'a = rat] by simp

lemma summary_examined: "totalDocsExamined (statsOrEmpty e) = summaryDocsExamined e"
  by (simp add: statsOrEmpty_def summaryDocsExamined_def emptyStats_def split: option.splits)

lemma summary_returned: "totalDocsReturned (statsOrEmpty e) = summaryDocsReturned e"
  by (simp add: statsOrEmpty_def summaryDocsReturned_def emptyStats_def split: option.splits)

lemma calculateEfficiency_effective:
  "calculateEfficiency e p =
     codeEfficiency (effectiveCounter (summaryDocsExamined e) (docsExamined p))
                    (effectiveCounter (summaryDocsReturned e) (docsReturned p))"
  unfolding calculateEfficiency_def Let_def summary_examined summary_returned
    numOr_effective codeEfficiency_def
  by simp

lemma efficiency_performanceOf: "efficiency (performanceOf e p) = calculateEfficiency e p"
  by (simp add: performanceOf_def)

text \<open>The computed efficiency lies within a half, and the rounding error of the two double
  operations, of the exact percentage.\<close>

lemma codeEfficiency_error:
  assumes "0 < examined" "0 < returned"
  shows "\<bar>of_int (codeEfficiency examined returned) - 100 * of_nat returned / of_nat examined\<bar>
         \<le> 1 / 2 + 300 * (of_nat returned / of_nat examined) / (2 ^ 53 :: rat)"
proof -
  let ?y = "jsMul (jsDiv (of_nat returned) (of_nat examined)) 100"
  have eq: "codeEfficiency examined returned = \<lfloor>?y + 1 / 2\<rfloor>"
    using assms by (simp add: codeEfficiency_def Math_round_def)
  have "of_int \<lfloor>?y + 1 / 2\<rfloor> \<le> ?y + 1 / 2" "?y + 1 / 2 < of_int \<lfloor>?y + 1 / 2\<rfloor> + 1"
    by linarith+
  then have "\<bar>of_int \<lfloor>?y + 1 / 2\<rfloor> - ?y\<bar> \<le> 1 / 2"
    by linarith
  with percent_of_counters(1) [OF assms(1), of returned] show ?thesis
    unfolding eq by linarith
qed

text \<open>With no more documents returned than examined it stays between 0 and 100.\<close>

lemma codeEfficiency_bounds:
  assumes "returned \<le> examined"
  shows "0 \<le> codeEfficiency examined returned \<and> codeEfficiency examined returned \<le> 100"
proof (cases "examined = 0 \<or> returned = 0")
  case True
  then show ?thesis by (auto simp: codeEfficiency_def)
next
  case False
  then have pos: "0 < examined" "0 < returned" by simp_all
  let ?a = "of_nat returned / of_nat examined :: rat"
  let ?y = "jsMul (jsDiv (of_nat returned) (of_nat examined)) 100"
  have eq: "codeEfficiency examined returned = \<lfloor>?y + 1 / 2\<rfloor>"
    using pos by (simp add: codeEfficiency_def Math_round_def)
  have a1: "?a \<le> 1" using assms pos by simp
  have a0: "0 \<le> ?a" by simp
  have "300 * ?a / 2 ^ 53 \<le> 300 * 1 / 2 ^ 53"
    using a1 by (intro divide_right_mono mult_left_mono) simp_all
  then have small: "300 * ?a / 2 ^ 53 < 1 / 2" by simp
  have "100 * ?a \<le> 100" using a1 by simp
  then have "100 * of_nat returned / of_nat examined \<le> (100::rat)" by simp
  with percent_of_counters(1) [OF pos(1), of returned] small
  have "?y + 1 / 2 < 101" by linarith
  then have up: "\<lfloor>?y + 1 / 2\<rfloor> < 101" by (simp add: floor_less_iff)
  have "0 \<le> ?y + 1 / 2" using percent_of_counters(2) [OF pos(1), of returned] by simp
  then have low: "0 \<le> \<lfloor>?y + 1 / 2\<rfloor>" by simp
  from up low show ?thesis unfolding eq by simp
qed

lemma numOr0_counterValue: "numOr0 c = counterValue c"
  by (simp add: numOr0_def counterValue_def)

lemma effectiveCounter_fallback:
  "c = None \<or> c = Some 0 \<Longrightarrow> effectiveCounter c r = counterValue r"
  by (simp add: effectiveCounter_def)

lemma effectiveCounter_summary:
  "c = Some n \<Longrightarrow> n \<noteq> 0 \<Longrightarrow> effectiveCounter c r = n"
  by (simp add: effectiveCounter_def counterValue_def)

lemma performanceOf_counters:
  "perf_executionTimeMillis (performanceOf e p) = effectiveCounter (summaryTimeMillis e) (millis p)"
  "perf_totalKeysExamined (performanceOf e p)
     = effectiveCounter (summaryKeysExamined e) (keysExamined p)"
  "perf_totalDocsExamined (performanceOf e p)
     = effectiveCounter (summaryDocsExamined e) (docsExamined p)"
  "perf_totalDocsReturned (performanceOf e p)
     = effectiveCounter (summaryDocsReturned e) (docsReturned p)"
  by (simp_all add: performanceOf_def numOr_effective summaryTimeMillis_def
        summaryKeysExamined_def summaryDocsExamined_def summaryDocsReturned_def)

text \<open>The double arithmetic at the inputs of the examples.\<close>

lemma eval_23_40: "Math_round (jsMul (jsDiv 23 40) 100) = 57"
  by code_simp

lemma eval_3_50000: "Math_round (jsMul (jsDiv 3 50000) 100) = 0"
  by code_simp

lemma eval_500_100: "Math_round (jsMul (jsDiv 500 100) 100) = 500"
  by code_simp

lemma eval_1_3: "jsMul (jsDiv 1 3) 100 = 2345624805922133 / 70368744177664"
  by code_simp

lemma eval_1_10: "jsMul (jsDiv 1 10) 100 = 10"
  by code_simp

subsection \<open>Recommendations\<close>

lemma rec_types:
  "r_type (missingIndexRec f) = ''missing_index''"
  "r_type (sortIndexRec f s) \<noteq> ''missing_index''"
  "r_type (lowEfficiencyRec x y z) \<noteq> ''missing_index''"
  by (simp_all add: missingIndexRec_def sortIndexRec_def lowEfficiencyRec_def)

lemma efficiencyRecommendations_no_missing:
  "filter (\<lambda>r. r_type r = ''missing_index'') (efficiencyRecommendations e) = []"
  by (simp add: efficiencyRecommendations_def Let_def rec_types)

lemma scanRecommendations_missing:
  "filter (\<lambda>r. r_type r = ''missing_index'') (scanRecommendations e c)
     = (if isCollectionScan e \<and> 0 < length (objectKeys (recFilter c))
        then [missingIndexRec (recFilter c)] else [])"
  by (simp add: scanRecommendations_def Let_def rec_types)

lemma missing_index_recommendations:
  "filter (\<lambda>r. r_type r = ''missing_index'') (generateIndexRecommendations e c)
     = (if isCollectionScan e \<and> 0 < length (objectKeys (recFilter c))
        then [missingIndexRec (recFilter c)] else [])"
  unfolding generateIndexRecommendations_def filter_append
    efficiencyRecommendations_no_missing scanRecommendations_missing
  by simp

section \<open>Properties of the route\<close>

subsection \<open>The switch on the operation type\<close>

lemma isArray_truthy: "isArray v \<Longrightarrow> truthy v"
  by (cases v) simp_all

lemma reconstruct_aggregate:
  "reconstruct (Some ''aggregate'') c =
     (if isArray (getProp c ''pipeline'') then Inr (AggregateReq (getProp c ''pipeline''))
      else Inl UnsupportedAggregationError)"
  by (simp add: reconstruct_def isArray_truthy)

lemma jsOr_empty: "\<not> truthy a \<Longrightarrow> \<not> truthy b \<Longrightarrow> jsOr (jsOr a b) d = d"
  by (simp add: jsOr_def)

lemma reconstruct_other:
  assumes "operation \<noteq> Some ''aggregate''"
  shows "\<exists>req flt. reconstruct operation c = Inr req \<and> requestFilter req = Some flt
           \<and> (\<not> truthy (getProp c ''filter'') \<and> \<not> truthy (getProp c ''query'')
                \<and> \<not> truthy (getProp c ''q'') \<longrightarrow> flt = JObj [])"
  using assms by (simp add: reconstruct_def jsOr_empty)

text \<open>The filter of the recommendations and the filter of the request are computed from
  different alias chains. They agree on the command shapes the profiler logs: a \<open>find\<close>
  without \<open>q\<close>, an update or delete with \<open>q\<close> alone, a count with \<open>query\<close> alone.\<close>

lemma recFilter_find:
  "operation \<notin> {Some ''update'', Some ''delete'', Some ''remove'', Some ''count'',
                  Some ''aggregate''}
   \<Longrightarrow> \<not> truthy (getProp c ''q'')
   \<Longrightarrow> \<exists>req. reconstruct operation c = Inr req \<and> requestFilter req = Some (recFilter c)"
  by (simp add: reconstruct_def recFilter_def jsOr_def)

lemma recFilter_update_delete:
  "operation \<in> {Some ''update'', Some ''delete'', Some ''remove''}
   \<Longrightarrow> \<not> truthy (getProp c ''filter'') \<Longrightarrow> \<not> truthy (getProp c ''query'')
   \<Longrightarrow> \<exists>req. reconstruct operation c = Inr req \<and> requestFilter req = Some (recFilter c)"
  by (auto simp: reconstruct_def recFilter_def jsOr_def)

lemma recFilter_count:
  "\<not> truthy (getProp c ''filter'') \<Longrightarrow> \<not> truthy (getProp c ''q'')
   \<Longrightarrow> \<exists>req. reconstruct (Some ''count'') c = Inr req
             \<and> requestFilter req = Some (recFilter c)"
  by (simp add: reconstruct_def recFilter_def jsOr_def)

subsection \<open>Finding the profiler document\<close>

lemma locate_invalid:
  "newObjectId eng q = Inl err \<Longrightarrow> locate eng q = findOne eng (ByIdOrComment q)"
  by (simp add: locate_def)

lemma locate_lookup_throws:
  "newObjectId eng q = Inr oid \<Longrightarrow> findOne eng (ById oid) = Inl err
     \<Longrightarrow> locate eng q = findOne eng (ByIdOrComment q)"
  by (simp add: locate_def)

lemma locate_lookup_answers:
  "newObjectId eng q = Inr oid \<Longrightarrow> findOne eng (ById oid) = Inr r \<Longrightarrow> locate eng q = Inr r"
  by (simp add: locate_def)

lemma explainRoute_not_found:
  "q \<noteq> [] \<Longrightarrow> locate eng q = Inr None \<Longrightarrow>
     explainRoute eng (Some q) =
       Status 404 \<lparr>eb_error = ''Query not found'',
                   eb_message = ''No profiler data found for queryId: '' @ q\<rparr>"
  by (simp add: explainRoute_def)

lemma explainRoute_located:
  "q \<noteq> [] \<Longrightarrow> locate eng q = Inr (Some p) \<Longrightarrow> explainRoute eng (Some q) = diagnose eng q p"
  by (simp add: explainRoute_def)

lemma hexObjectId_tag: "hexObjectId ''0123456789abcdef01234567'' = Inr ''0123456789abcdef01234567''"
  by (simp add: hexObjectId_def)

lemma hexObjectId_query_1: "hexObjectId ''query_1'' = Inl (Error ''input must be a 24 character hex string'')"
  by (simp add: hexObjectId_def)

subsection \<open>From the located document to the response\<close>





section \<open>The claims\<close>

text \<open>
  C1, as the specification states it, fails on the code, in two ways. A summary counter
  that is 0 is replaced by the recorded one: the first explain result below reports
  \<open>totalDocsExamined = 0\<close> (a covered query) and 3 documents returned, the profiled
  operation recorded 50000 documents examined, and the efficiency is 0 and not 100. And the
  quotient is rounded to a double before it is multiplied by 100 and rounded to an integer:
  with 40 documents examined and 23 returned the code computes
  \<open>Math.round(57.49999999999999) = 57\<close>, where \<open>round(100 * 23 / 40)\<close> is 58.
\<close>

theorem C1_counterexample:
  "summaryDocsExamined (exExplain (Some 0) (Some 3) exIxscanA) = Some 0
   \<and> efficiency (performanceOf (exExplain (Some 0) (Some 3) exIxscanA) exOrders) = 0
   \<and> specEfficiency 0 3 = 100
   \<and> efficiency (performanceOf (exExplain (Some 40) (Some 23) exIxscanA) exOrders) = 57
   \<and> specEfficiency 40 23 = 58"
proof -
  have A: "summaryDocsExamined (exExplain (Some 0) (Some 3) exIxscanA) = Some 0"
    by (simp add: summaryDocsExamined_def exExplain_def)
  have B: "efficiency (performanceOf (exExplain (Some 0) (Some 3) exIxscanA) exOrders) = 0"
    by (simp add: performanceOf_def calculateEfficiency_def statsOrEmpty_def exExplain_def
          exOrders_def exProfile_def numOr_def numOr0_def eval_3_50000)
  have C: "specEfficiency 0 3 = 100"
    by (simp add: specEfficiency_def)
  have D: "efficiency (performanceOf (exExplain (Some 40) (Some 23) exIxscanA) exOrders) = 57"
    by (simp add: performanceOf_def calculateEfficiency_def statsOrEmpty_def exExplain_def
          exOrders_def exProfile_def numOr_def numOr0_def eval_23_40)
  have E: "specEfficiency 40 23 = 58"
    by (simp add: specEfficiency_def round_def floor_divide_numeral_rat)
  show ?thesis
    by (rule conjI [OF A conjI [OF B conjI [OF C conjI [OF D E]]]])
qed

text \<open>
  C1, amended. The efficiency of the performance block is computed from the effective
  counters: each top-level summary counter when it is present and not 0, otherwise the
  profiled operation's recorded counter (0 when that is absent as well); two positive
  summary counters are the effective ones. It is 100 when the effective examined counter is
  0, and 0 when the effective examined counter is positive and the effective returned
  counter is 0. Otherwise it is \<open>Math.round\<close> of the double-precision product
  \<open>(docsReturned / docsExamined) * 100\<close>: an integer within
  \<open>1/2 + 300 * (docsReturned / docsExamined) / 2^53\<close> of the exact percentage
  \<open>100 * docsReturned / docsExamined\<close>.
\<close>

theorem C1_efficiency_effective_counters:
  "(effectiveCounter (summaryDocsExamined e) (docsExamined p) = 0
      \<longrightarrow> efficiency (performanceOf e p) = 100)
   \<and> (0 < effectiveCounter (summaryDocsExamined e) (docsExamined p)
       \<and> effectiveCounter (summaryDocsReturned e) (docsReturned p) = 0
      \<longrightarrow> efficiency (performanceOf e p) = 0)
   \<and> (0 < effectiveCounter (summaryDocsExamined e) (docsExamined p)
       \<and> 0 < effectiveCounter (summaryDocsReturned e) (docsReturned p)
      \<longrightarrow> efficiency (performanceOf e p)
            = Math_round
                (jsMul (jsDiv (of_nat (effectiveCounter (summaryDocsReturned e) (docsReturned p)))
                              (of_nat (effectiveCounter (summaryDocsExamined e) (docsExamined p))))
                       100)
          \<and> \<bar>of_int (efficiency (performanceOf e p))
               - 100 * of_nat (effectiveCounter (summaryDocsReturned e) (docsReturned p))
                     / of_nat (effectiveCounter (summaryDocsExamined e) (docsExamined p))\<bar>
            \<le> 1 / 2
               + 300 * (of_nat (effectiveCounter (summaryDocsReturned e) (docsReturned p))
                        / of_nat (effectiveCounter (summaryDocsExamined e) (docsExamined p)))
                 / (2 ^ 53 :: rat))
   \<and> (\<forall>x r. summaryDocsExamined e = Some x \<and> 0 < x
             \<and> summaryDocsReturned e = Some r \<and> 0 < r
      \<longrightarrow> efficiency (performanceOf e p)
            = Math_round (jsMul (jsDiv (of_nat r) (of_nat x)) 100)
          \<and> \<bar>of_int (efficiency (performanceOf e p)) - 100 * of_nat r / of_nat x\<bar>
            \<le> 1 / 2 + 300 * (of_nat r / of_nat x) / (2 ^ 53 :: rat))"
proof -
  let ?x = "effectiveCounter (summaryDocsExamined e) (docsExamined p)"
  let ?r = "effectiveCounter (summaryDocsReturned e) (docsReturned p)"
  have eff: "efficiency (performanceOf e p) = codeEfficiency ?x ?r"
    by (simp add: efficiency_performanceOf calculateEfficiency_effective)
  have A: "?x = 0 \<longrightarrow> efficiency (performanceOf e p) = 100"
    by (simp add: eff codeEfficiency_def)
  have B: "0 < ?x \<and> ?r = 0 \<longrightarrow> efficiency (performanceOf e p) = 0"
    by (simp add: eff codeEfficiency_def)
  have C: "0 < ?x \<and> 0 < ?r
      \<longrightarrow> efficiency (performanceOf e p) = Math_round (jsMul (jsDiv (of_nat ?r) (of_nat ?x)) 100)
          \<and> \<bar>of_int (efficiency (performanceOf e p)) - 100 * of_nat ?r / of_nat ?x\<bar>
            \<le> 1 / 2 + 300 * (of_nat ?r / of_nat ?x) / (2 ^ 53 :: rat)"
  proof (intro impI, elim conjE)
    assume pos: "0 < ?x" "0 < ?r"
    have 1: "efficiency (performanceOf e p) = Math_round (jsMul (jsDiv (of_nat ?r) (of_nat ?x)) 100)"
      using pos by (simp add: eff codeEfficiency_def)
    have 2: "\<bar>of_int (efficiency (performanceOf e p)) - 100 * of_nat ?r / of_nat ?x\<bar>
            \<le> 1 / 2 + 300 * (of_nat ?r / of_nat ?x) / (2 ^ 53 :: rat)"
      unfolding eff by (rule codeEfficiency_error [OF pos])
    show "efficiency (performanceOf e p) = Math_round (jsMul (jsDiv (of_nat ?r) (of_nat ?x)) 100)
          \<and> \<bar>of_int (efficiency (performanceOf e p)) - 100 * of_nat ?r / of_nat ?x\<bar>
            \<le> 1 / 2 + 300 * (of_nat ?r / of_nat ?x) / (2 ^ 53 :: rat)"
      by (rule conjI [OF 1 2])
  qed
  have D: "\<forall>x r. summaryDocsExamined e = Some x \<and> 0 < x
             \<and> summaryDocsReturned e = Some r \<and> 0 < r
      \<longrightarrow> efficiency (performanceOf e p)
            = Math_round (jsMul (jsDiv (of_nat r) (of_nat x)) 100)
          \<and> \<bar>of_int (efficiency (performanceOf e p)) - 100 * of_nat r / of_nat x\<bar>
            \<le> 1 / 2 + 300 * (of_nat r / of_nat x) / (2 ^ 53 :: rat)"
  proof (intro allI impI, elim conjE)
    fix x r
    assume s: "summaryDocsExamined e = Some x" "0 < x" "summaryDocsReturned e = Some r" "0 < r"
    have x: "?x = x" using s(1,2) by (simp add: effectiveCounter_summary)
    have r: "?r = r" using s(3,4) by (simp add: effectiveCounter_summary)
    have pos: "0 < ?x \<and> 0 < ?r" unfolding x r using s(2,4) by simp
    from C [rule_format, OF pos]
    show "efficiency (performanceOf e p)
            = Math_round (jsMul (jsDiv (of_nat r) (of_nat x)) 100)
          \<and> \<bar>of_int (efficiency (performanceOf e p)) - 100 * of_nat r / of_nat x\<bar>
            \<le> 1 / 2 + 300 * (of_nat r / of_nat x) / (2 ^ 53 :: rat)"
      unfolding x r .
  qed
  show ?thesis
    by (rule conjI [OF A conjI [OF B conjI [OF C D]]])
qed

theorem C1_efficiency_effective_counters_witness:
  "summaryDocsExamined (exExplain (Some 40) (Some 23) exIxscanA) = Some 40 \<and> (0::nat) < 40
   \<and> summaryDocsReturned (exExplain (Some 40) (Some 23) exIxscanA) = Some 23 \<and> (0::nat) < 23
   \<and> efficiency (performanceOf (exExplain (Some 40) (Some 23) exIxscanA) exOrders)
       = Math_round (jsMul (jsDiv 23 40) 100)
   \<and> Math_round (jsMul (jsDiv 23 40) 100) = 57
   \<and> \<bar>of_int (efficiency (performanceOf (exExplain (Some 40) (Some 23) exIxscanA) exOrders))
        - 100 * 23 / 40\<bar> \<le> 1 / 2 + 300 * (23 / 40) / (2 ^ 53 :: rat)"
proof -
  let ?e = "exExplain (Some 40) (Some 23) exIxscanA"
  have h: "summaryDocsExamined ?e = Some 40 \<and> (0::nat) < 40
     \<and> summaryDocsReturned ?e = Some 23 \<and> (0::nat) < 23"
    by (simp add: summaryDocsExamined_def summaryDocsReturned_def exExplain_def)
  from C1_efficiency_effective_counters [of ?e exOrders] h
  have "efficiency (performanceOf ?e exOrders)
            = Math_round (jsMul (jsDiv (of_nat 23) (of_nat 40)) 100)
          \<and> \<bar>of_int (efficiency (performanceOf ?e exOrders)) - 100 * of_nat 23 / of_nat 40\<bar>
            \<le> 1 / 2 + 300 * (of_nat 23 / of_nat 40) / (2 ^ 53 :: rat)"
    by blast
  then have w: "efficiency (performanceOf ?e exOrders) = Math_round (jsMul (jsDiv 23 40) 100)
     \<and> \<bar>of_int (efficiency (performanceOf ?e exOrders)) - 100 * 23 / 40\<bar>
            \<le> 1 / 2 + 300 * (23 / 40) / (2 ^ 53 :: rat)"
    unfolding of_nat_numeral .
  have v: "Math_round (jsMul (jsDiv 23 40) 100) = 57"
    by (rule eval_23_40)
  from h have h1: "summaryDocsExamined ?e = Some 40" and h2: "(0::nat) < 40"
    and h3: "summaryDocsReturned ?e = Some 23" and h4: "(0::nat) < 23"
    by simp_all
  from w have w1: "efficiency (performanceOf ?e exOrders) = Math_round (jsMul (jsDiv 23 40) 100)"
    and w2: "\<bar>of_int (efficiency (performanceOf ?e exOrders)) - 100 * 23 / 40\<bar>
            \<le> 1 / 2 + 300 * (23 / 40) / (2 ^ 53 :: rat)"
    by (rule conjunct1, rule conjunct2)
  show ?thesis
    by (rule conjI [OF h1 conjI [OF h2 conjI [OF h3 conjI [OF h4 conjI [OF w1 conjI [OF v w2]]]]]])
qed

text \<open>
  C2. The efficiency placed in the performance block is not confined to the range from 0
  to 100, since \<open>calculateEfficiency\<close> has no clamp: with a summary of 0 documents
  examined and 500 returned, and a recorded 100 documents examined, the performance block
  carries an efficiency of 500. (With no more documents returned than examined the value
  does stay in the range, see \<open>codeEfficiency_bounds\<close>.)
\<close>

theorem C2_efficiency_not_clamped:
  "efficiency (performanceOf (exExplain (Some 0) (Some 500) exIxscanA)
                 (exProfile ''find'' ''shop.orders'' [] None (Some 100) (Some 3))) = 500"
  by (simp add: performanceOf_def calculateEfficiency_def statsOrEmpty_def exExplain_def
        exProfile_def numOr_def numOr0_def eval_500_100)

text \<open>
  C3, as the specification states it, fails on the code: an \<open>aggregate\<close> command whose
  pipeline is the empty array is not a non-empty sequence of stages, and its reconstruction
  does not fail; the empty pipeline is handed to the engine.
\<close>

theorem C3_counterexample:
  "reconstruct (Some ''aggregate'') [(''aggregate'', JStr ''orders''), (''pipeline'', JArr [])]
     = Inr (AggregateReq (JArr []))"
  by (simp add: reconstruct_def getProp_def)

text \<open>
  C3, amended. Reconstruction of an \<open>aggregate\<close> operation fails with
  UnsupportedAggregationError (the error \<open>Invalid aggregation pipeline\<close>) exactly when the
  \<open>pipeline\<close> field of the logged command is not an array; an array, also an empty one, is
  passed on as it is. In particular a command without a \<open>pipeline\<close> field fails. No other
  operation type makes reconstruction fail: each yields a request with a filter, and the
  filter is the empty document when the command carries none of the filter aliases.
\<close>

theorem C3_reconstruct_failure:
  "(reconstruct (Some ''aggregate'') c = Inl UnsupportedAggregationError
      \<longleftrightarrow> \<not> isArray (getProp c ''pipeline''))
   \<and> (isArray (getProp c ''pipeline'') \<longrightarrow>
        reconstruct (Some ''aggregate'') c = Inr (AggregateReq (getProp c ''pipeline'')))
   \<and> (map_of c ''pipeline'' = None \<longrightarrow>
        reconstruct (Some ''aggregate'') c = Inl UnsupportedAggregationError)
   \<and> (operation \<noteq> Some ''aggregate'' \<longrightarrow>
        (\<exists>req flt. reconstruct operation c = Inr req \<and> requestFilter req = Some flt
           \<and> (\<not> truthy (getProp c ''filter'') \<and> \<not> truthy (getProp c ''query'')
                \<and> \<not> truthy (getProp c ''q'') \<longrightarrow> flt = JObj [])))"
proof -
  have A: "reconstruct (Some ''aggregate'') c = Inl UnsupportedAggregationError
      \<longleftrightarrow> \<not> isArray (getProp c ''pipeline'')"
    by (simp add: reconstruct_aggregate)
  have B: "isArray (getProp c ''pipeline'') \<longrightarrow>
        reconstruct (Some ''aggregate'') c = Inr (AggregateReq (getProp c ''pipeline''))"
    by (simp add: reconstruct_aggregate)
  have C: "map_of c ''pipeline'' = None \<longrightarrow>
        reconstruct (Some ''aggregate'') c = Inl UnsupportedAggregationError"
    by (simp add: reconstruct_aggregate getProp_def)
  have D: "operation \<noteq> Some ''aggregate'' \<longrightarrow>
        (\<exists>req flt. reconstruct operation c = Inr req \<and> requestFilter req = Some flt
           \<and> (\<not> truthy (getProp c ''filter'') \<and> \<not> truthy (getProp c ''query'')
                \<and> \<not> truthy (getProp c ''q'') \<longrightarrow> flt = JObj []))"
    using reconstruct_other [of operation c] by (rule impI)
  show ?thesis
    by (rule conjI [OF A conjI [OF B conjI [OF C D]]])
qed

theorem C3_reconstruct_failure_witness:
  "map_of [(''aggregate'', JStr ''orders'')] ''pipeline'' = None
   \<and> reconstruct (Some ''aggregate'') [(''aggregate'', JStr ''orders'')]
       = Inl (Error ''Invalid aggregation pipeline'')
   \<and> isArray (getProp [(''pipeline'', JArr [JObj [(''$match'', JObj [])]])] ''pipeline'')
   \<and> reconstruct (Some ''aggregate'') [(''pipeline'', JArr [JObj [(''$match'', JObj [])]])]
       = Inr (AggregateReq (JArr [JObj [(''$match'', JObj [])]]))
   \<and> Some ''update'' \<noteq> Some ''aggregate''
   \<and> reconstruct (Some ''update'') [] = Inr (UpdateManyReq (JObj []) (JObj []))"
proof -
  let ?c = "[(''aggregate'', JStr ''orders'')]"
  let ?c2 = "[(''pipeline'', JArr [JObj [(''$match'', JObj [])]])]"
  have h1: "map_of ?c ''pipeline'' = None" by simp
  have h2: "isArray (getProp ?c2 ''pipeline'')" by (simp add: getProp_def)
  have v2: "getProp ?c2 ''pipeline'' = JArr [JObj [(''$match'', JObj [])]]"
    by (simp add: getProp_def)
  have h3: "Some ''update'' \<noteq> Some ''aggregate''" by simp
  have r3: "reconstruct (Some ''update'') [] = Inr (UpdateManyReq (JObj []) (JObj []))"
    by (simp add: reconstruct_def getProp_def jsOr_def)
  from C3_reconstruct_failure [of ?c "Some ''update''"] h1
  have r1: "reconstruct (Some ''aggregate'') ?c = Inl (Error ''Invalid aggregation pipeline'')"
    unfolding UnsupportedAggregationError_def by blast
  from C3_reconstruct_failure [of ?c2 "Some ''update''"] h2
  have r2: "reconstruct (Some ''aggregate'') ?c2 = Inr (AggregateReq (getProp ?c2 ''pipeline''))"
    by blast
  show ?thesis
    using h1 r1 h2 r2 h3 r3 unfolding v2 by simp
qed

text \<open>
  C4, as the specification states it, fails on the code: the operation below was logged with
  a comment of 24 hexadecimal digits. The identifier is a valid ObjectId, the exact-match
  lookup finds nothing, the lookup by identifier field or comment would find the operation,
  and the route answers 404 without running it.
\<close>

theorem C4_counterexample:
  "newObjectId exTaggedEngine ''0123456789abcdef01234567'' = Inr ''0123456789abcdef01234567''
   \<and> findOne exTaggedEngine (ById ''0123456789abcdef01234567'') = Inr None
   \<and> findOne exTaggedEngine (ByIdOrComment ''0123456789abcdef01234567'') = Inr (Some exTagged)
   \<and> locate exTaggedEngine ''0123456789abcdef01234567'' = Inr None
   \<and> explainRoute exTaggedEngine (Some ''0123456789abcdef01234567'') =
       Status 404 \<lparr>eb_error = ''Query not found'',
                   eb_message = ''No profiler data found for queryId: 0123456789abcdef01234567''\<rparr>"
proof -
  let ?q = "''0123456789abcdef01234567''"
  have oid: "newObjectId exTaggedEngine ?q = Inr ?q"
    by (simp add: exTaggedEngine_def memEngine_def hexObjectId_tag)
  have first: "findOne exTaggedEngine (ById ?q) = Inr None"
    by (simp add: exTaggedEngine_def memEngine_def exTagged_def exProfile_def)
  have second: "findOne exTaggedEngine (ByIdOrComment ?q) = Inr (Some exTagged)"
    by (simp add: exTaggedEngine_def memEngine_def exTagged_def exProfile_def getProp_def)
  have loc: "locate exTaggedEngine ?q = Inr None"
    using oid first by (rule locate_lookup_answers)
  have "explainRoute exTaggedEngine (Some ?q) =
       Status 404 \<lparr>eb_error = ''Query not found'',
                   eb_message = ''No profiler data found for queryId: '' @ ?q\<rparr>"
    using loc by (intro explainRoute_not_found) simp_all
  then have route: "explainRoute exTaggedEngine (Some ?q) =
       Status 404 \<lparr>eb_error = ''Query not found'',
                   eb_message = ''No profiler data found for queryId: 0123456789abcdef01234567''\<rparr>"
    by simp
  show ?thesis
    by (rule conjI [OF oid conjI [OF first conjI [OF second conjI [OF loc route]]]])
qed

text \<open>
  C4, amended. The locator first attempts an exact match on the document identifier. It
  falls back to matching the literal identifier field or the comment field of the logged
  command exactly when that first attempt throws: the identifier is not a valid ObjectId,
  or the lookup itself fails. When the exact-match lookup answers, its answer stands, also
  when it is no match. A located operation is diagnosed; no match is answered with 404
  (Query not found).
\<close>

theorem C4_locate_fallback:
  "(\<forall>err. newObjectId eng q = Inl err \<longrightarrow> locate eng q = findOne eng (ByIdOrComment q))
   \<and> (\<forall>oid err. newObjectId eng q = Inr oid \<and> findOne eng (ById oid) = Inl err \<longrightarrow>
         locate eng q = findOne eng (ByIdOrComment q))
   \<and> (\<forall>oid r. newObjectId eng q = Inr oid \<and> findOne eng (ById oid) = Inr r \<longrightarrow>
         locate eng q = Inr r)
   \<and> (q \<noteq> [] \<and> locate eng q = Inr None \<longrightarrow>
         explainRoute eng (Some q) =
           Status 404 \<lparr>eb_error = ''Query not found'',
                       eb_message = ''No profiler data found for queryId: '' @ q\<rparr>)
   \<and> (\<forall>p. q \<noteq> [] \<and> locate eng q = Inr (Some p) \<longrightarrow>
         explainRoute eng (Some q) = diagnose eng q p)"
  using locate_invalid [of eng q] locate_lookup_throws [of eng q]
    locate_lookup_answers [of eng q] explainRoute_not_found [of q eng]
    explainRoute_located [of q eng]
  by blast

theorem C4_locate_fallback_witness:
  "newObjectId exFailingEngine ''query_1'' = Inl (Error ''input must be a 24 character hex string'')
   \<and> findOne exFailingEngine (ByIdOrComment ''query_1'') = Inr (Some exLogged)
   \<and> locate exFailingEngine ''query_1'' = Inr (Some exLogged)
   \<and> newObjectId exFailingEngine ''0123456789abcdef01234567'' = Inr ''0123456789abcdef01234567''
   \<and> findOne exFailingEngine (ById ''0123456789abcdef01234567'') = Inr None
   \<and> locate exFailingEngine ''0123456789abcdef01234567'' = Inr None
   \<and> explainRoute exFailingEngine (Some ''0123456789abcdef01234567'') =
       Status 404 \<lparr>eb_error = ''Query not found'',
                   eb_message = ''No profiler data found for queryId: 0123456789abcdef01234567''\<rparr>"
proof -
  let ?q = "''0123456789abcdef01234567''"
  have bad: "newObjectId exFailingEngine ''query_1''
               = Inl (Error ''input must be a 24 character hex string'')"
    by (simp add: exFailingEngine_def memEngine_def hexObjectId_query_1)
  have second: "findOne exFailingEngine (ByIdOrComment ''query_1'') = Inr (Some exLogged)"
    by (simp add: exFailingEngine_def memEngine_def exLogged_def)
  have oid: "newObjectId exFailingEngine ?q = Inr ?q"
    by (simp add: exFailingEngine_def memEngine_def hexObjectId_tag)
  have first: "findOne exFailingEngine (ById ?q) = Inr None"
    by (simp add: exFailingEngine_def memEngine_def exLogged_def)
  from C4_locate_fallback [of exFailingEngine "''query_1''"] bad second
  have loc1: "locate exFailingEngine ''query_1'' = Inr (Some exLogged)"
    by simp
  from C4_locate_fallback [of exFailingEngine ?q] oid first
  have loc2: "locate exFailingEngine ?q = Inr None"
    by blast
  have ne: "?q \<noteq> []" by simp
  from C4_locate_fallback [of exFailingEngine ?q] ne loc2
  have "explainRoute exFailingEngine (Some ?q) =
       Status 404 \<lparr>eb_error = ''Query not found'',
                   eb_message = ''No profiler data found for queryId: '' @ ?q\<rparr>"
    by blast
  then have route: "explainRoute exFailingEngine (Some ?q) =
       Status 404 \<lparr>eb_error = ''Query not found'',
                   eb_message = ''No profiler data found for queryId: 0123456789abcdef01234567''\<rparr>"
    by simp
  show ?thesis
    by (rule conjI [OF bad conjI [OF second conjI [OF loc1 conjI [OF oid conjI [OF first
          conjI [OF loc2 route]]]]]])
qed

text \<open>
  C5. For every stage tree, the flattened stage list has as many entries as the tree has
  nodes, and it is a pre-order listing: the listing of a node is the node's own entry
  followed by the complete listings of its children, in their given order (the single
  child before the list of children), each one level deeper than the node. So the entry of
  a node precedes the entries of all its descendants, every entry of an earlier sibling's
  subtree precedes every entry of a later sibling's, and a child's depth is its parent's
  plus one. Without a stage tree the list is empty.
\<close>

theorem C5_stages_preorder:
  "(case stagesOf e of
      None \<Rightarrow> extractExecutionStages e = []
    | Some r \<Rightarrow> extractExecutionStages e = traverseStages r 0 []
                   \<and> length (extractExecutionStages e) = nodeCount r)
   \<and> length (traverseStages t d []) = nodeCount t
   \<and> traverseStages t d [] =
       stageEntryOf (nodeFields t) d
       # concat (map (\<lambda>c. traverseStages c (d + 1) []) (children t))
   \<and> e_depth (stageEntryOf (nodeFields t) d) = d"
proof -
  have flat: "traverseStages s k [] = preorder k s" for s k
    using traverseStages_preorder [of s k "[]"] by simp
  have A: "(case stagesOf e of
      None \<Rightarrow> extractExecutionStages e = []
    | Some r \<Rightarrow> extractExecutionStages e = traverseStages r 0 []
                   \<and> length (extractExecutionStages e) = nodeCount r)"
    by (simp add: extractExecutionStages_def flat length_preorder split: option.splits)
  have B: "length (traverseStages t d []) = nodeCount t"
    by (simp add: flat length_preorder)
  have C: "traverseStages t d [] =
       stageEntryOf (nodeFields t) d
       # concat (map (\<lambda>c. traverseStages c (d + 1) []) (children t))"
    using preorder_children [of d t] by (simp add: flat)
  have D: "e_depth (stageEntryOf (nodeFields t) d) = d"
    by (simp add: stageEntryOf_def)
  show ?thesis
    by (rule conjI [OF A conjI [OF B conjI [OF C D]]])
qed

theorem C5_stages_preorder_witness:
  "map (\<lambda>x. (e_stage x, e_depth x)) (extractExecutionStages (exExplain None None exOrTree))
     = [(Some ''FETCH'', 0), (Some ''OR'', 1), (Some ''IXSCAN'', 2), (Some ''IXSCAN'', 2),
        (Some ''FETCH'', 2), (Some ''IXSCAN'', 3)]
   \<and> nodeCount exOrTree = 6
   \<and> length (extractExecutionStages (exExplain None None exOrTree)) = nodeCount exOrTree"
  using C5_stages_preorder [of "exExplain None None exOrTree" exOrTree 0]
  by (simp add: extractExecutionStages_def stagesOf_def exExplain_def exOrTree_def
        exIxscanA_def exIxscanB_def exFields_def stageEntryOf_def)

text \<open>
  C6. \<open>indexesUsed\<close> holds exactly the index names present (as non-empty strings) on the
  nodes of the stage tree, holds none of them twice, and lists them in the order of their
  first appearance among the index names of the flattened stage list.
\<close>

theorem C6_indexes_used:
  "set (extractIndexesUsed e) =
     (case stagesOf e of
        None \<Rightarrow> {}
      | Some r \<Rightarrow>
          {n. n \<noteq> [] \<and> (\<exists>nd \<in> set (nodes r). st_indexName (nodeFields nd) = Some n)})
   \<and> distinct (extractIndexesUsed e)
   \<and> (\<forall>i j. i < j \<and> j < length (extractIndexesUsed e) \<longrightarrow>
         firstIndex (entryIndexNames (extractExecutionStages e)) (extractIndexesUsed e ! i)
         < firstIndex (entryIndexNames (extractExecutionStages e)) (extractIndexesUsed e ! j))"
proof -
  have names: "set (treeIndexNames r) =
      {n. n \<noteq> [] \<and> (\<exists>nd \<in> set (nodes r). st_indexName (nodeFields nd) = Some n)}" for r
    by (auto simp: treeIndexNames_def presentIndexName_def split: option.splits if_splits)
  have used: "extractIndexesUsed e =
      newSet (case stagesOf e of Some s \<Rightarrow> treeIndexNames s | None \<Rightarrow> [])"
    using traverseIndexes_names [of _ "[]"]
    by (simp add: extractIndexesUsed_def split: option.splits)
  have flat: "entryIndexNames (extractExecutionStages e) =
      (case stagesOf e of Some s \<Rightarrow> treeIndexNames s | None \<Rightarrow> [])"
    using traverseStages_preorder [of _ 0 "[]"]
    by (simp add: extractExecutionStages_def preorder_names entryIndexNames_Nil
          split: option.splits)
  have "set (extractIndexesUsed e) =
     (case stagesOf e of
        None \<Rightarrow> {}
      | Some r \<Rightarrow>
          {n. n \<noteq> [] \<and> (\<exists>nd \<in> set (nodes r). st_indexName (nodeFields nd) = Some n)})"
    unfolding used set_newSet by (simp add: names split: option.splits)
  moreover have "distinct (extractIndexesUsed e)"
    unfolding used by (rule distinct_newSet)
  moreover have "firstIndex (entryIndexNames (extractExecutionStages e)) (extractIndexesUsed e ! i)
         < firstIndex (entryIndexNames (extractExecutionStages e)) (extractIndexesUsed e ! j)"
    if "i < j" "j < length (extractIndexesUsed e)" for i j
    using that unfolding flat used by (rule newSet_first_seen)
  ultimately show ?thesis by blast
qed

theorem C6_indexes_used_witness:
  "extractIndexesUsed (exExplain None None exOrTree) = [''a_1'', ''b_1'']
   \<and> entryIndexNames (extractExecutionStages (exExplain None None exOrTree))
       = [''a_1'', ''b_1'', ''a_1'']
   \<and> firstIndex (entryIndexNames (extractExecutionStages (exExplain None None exOrTree)))
        (extractIndexesUsed (exExplain None None exOrTree) ! 0)
     < firstIndex (entryIndexNames (extractExecutionStages (exExplain None None exOrTree)))
        (extractIndexesUsed (exExplain None None exOrTree) ! 1)"
proof -
  have used: "extractIndexesUsed (exExplain None None exOrTree) = [''a_1'', ''b_1'']"
    by (simp add: extractIndexesUsed_def stagesOf_def exExplain_def exOrTree_def
          exIxscanA_def exIxscanB_def exFields_def newSet_def setAdd_def)
  have flat: "entryIndexNames (extractExecutionStages (exExplain None None exOrTree))
       = [''a_1'', ''b_1'', ''a_1'']"
    by (simp add: extractExecutionStages_def stagesOf_def exExplain_def exOrTree_def
          exIxscanA_def exIxscanB_def exFields_def stageEntryOf_def entryIndexNames_def)
  have len: "(0::nat) < 1 \<and> 1 < length (extractIndexesUsed (exExplain None None exOrTree))"
    by (simp add: used)
  from C6_indexes_used [of "exExplain None None exOrTree"] len used flat
  show ?thesis by blast
qed

text \<open>
  C7, as the specification states it, fails on the code: the generator does not look at the
  reconstructed request but takes a filter of its own from the logged command. Under a
  collection scan, a \<open>find\<close> logged as \<open>{find: 'orders', q: {a: 1}}\<close> is reconstructed with
  the empty filter and still gets the missing-index recommendation; an update logged as
  \<open>{q: {a: 1}, u: {$set: {b: 2}}, filter: {}}\<close> is reconstructed with the filter \<open>{a: 1}\<close> and
  gets no recommendation.
\<close>

theorem C7_counterexample:
  "reconstruct (Some ''find'') exFindWithQ
     = Inr (FindReq (JObj []) (JObj []) (JNum 0) (JNum 0))
   \<and> perf_isCollectionScan
        (ep_performance (explainPlanOf (exExplain None None exCollscan)
           (exProfile ''find'' ''shop.orders'' exFindWithQ None None None) exFindWithQ))
   \<and> map r_type (recommendations (explainPlanOf (exExplain None None exCollscan)
           (exProfile ''find'' ''shop.orders'' exFindWithQ None None None) exFindWithQ))
       = [''missing_index'']
   \<and> reconstruct (Some ''update'') exUpdateWithFilter
     = Inr (UpdateManyReq (JObj [(''a'', JNum 1)]) (JObj [(''$set'', JObj [(''b'', JNum 2)])]))
   \<and> recommendations (explainPlanOf (exExplain None None exCollscan)
           (exProfile ''update'' ''shop.orders'' exUpdateWithFilter None None None)
           exUpdateWithFilter)
       = []"
proof -
  let ?e = "exExplain None None exCollscan"
  have scan: "isCollectionScan ?e"
    by (simp add: isCollectionScan_def stagesOf_def exExplain_def exCollscan_def exFields_def)
  have noeff: "efficiencyRecommendations ?e = []"
    by (simp add: efficiencyRecommendations_def Let_def statsOrEmpty_def exExplain_def
          numOr0_def)
  have A: "reconstruct (Some ''find'') exFindWithQ
     = Inr (FindReq (JObj []) (JObj []) (JNum 0) (JNum 0))"
    by (simp add: reconstruct_def exFindWithQ_def getProp_def jsOr_def)
  have B: "perf_isCollectionScan
        (ep_performance (explainPlanOf ?e
           (exProfile ''find'' ''shop.orders'' exFindWithQ None None None) exFindWithQ))"
    using scan by (simp add: explainPlanOf_def performanceOf_def)
  have f1: "recFilter exFindWithQ = JObj [(''a'', JNum 1)]"
    by (simp add: recFilter_def exFindWithQ_def getProp_def jsOr_def)
  have s1: "recSort exFindWithQ = JObj []"
    by (simp add: recSort_def exFindWithQ_def getProp_def jsOr_def)
  have C: "map r_type (recommendations (explainPlanOf ?e
           (exProfile ''find'' ''shop.orders'' exFindWithQ None None None) exFindWithQ))
       = [''missing_index'']"
    using scan
    by (simp add: explainPlanOf_def generateIndexRecommendations_def scanRecommendations_def
          Let_def f1 s1 noeff objectKeys_def missingIndexRec_def)
  have D: "reconstruct (Some ''update'') exUpdateWithFilter
     = Inr (UpdateManyReq (JObj [(''a'', JNum 1)]) (JObj [(''$set'', JObj [(''b'', JNum 2)])]))"
    by (simp add: reconstruct_def exUpdateWithFilter_def getProp_def jsOr_def)
  have f2: "recFilter exUpdateWithFilter = JObj []"
    by (simp add: recFilter_def exUpdateWithFilter_def getProp_def jsOr_def)
  have s2: "recSort exUpdateWithFilter = JObj []"
    by (simp add: recSort_def exUpdateWithFilter_def getProp_def jsOr_def)
  have E: "recommendations (explainPlanOf ?e
           (exProfile ''update'' ''shop.orders'' exUpdateWithFilter None None None)
           exUpdateWithFilter)
       = []"
    using scan
    by (simp add: explainPlanOf_def generateIndexRecommendations_def scanRecommendations_def
          Let_def f2 s2 noeff objectKeys_def)
  show ?thesis
    by (rule conjI [OF A conjI [OF B conjI [OF C conjI [OF D E]]]])
qed

text \<open>
  C7, amended. The missing-index recommendation is among the recommendations if and only if
  the full-scan flag of the performance block is true and the filter the generator takes
  from the logged command, \<open>command.filter || command.query || command.q || {}\<close> whatever the
  operation type, has at least one key. When it is emitted its priority is \<open>high\<close> and its
  suggested index is that filter document as it was logged, the fields with their query
  values; it is emitted at most once, and never when that filter has no key.
\<close>

theorem C7_missing_index:
  "((\<exists>r \<in> set (recommendations (explainPlanOf e p c)). r_type r = ''missing_index'')
      \<longleftrightarrow> perf_isCollectionScan (ep_performance (explainPlanOf e p c))
          \<and> 0 < length (objectKeys (recFilter c)))
   \<and> (\<forall>r \<in> set (recommendations (explainPlanOf e p c)).
         r_type r = ''missing_index'' \<longrightarrow>
           r_priority r = ''high'' \<and> r_suggestedIndex r = Some (recFilter c))
   \<and> (objectKeys (recFilter c) = [] \<longrightarrow>
         (\<forall>r \<in> set (recommendations (explainPlanOf e p c)). r_type r \<noteq> ''missing_index''))
   \<and> length (filter (\<lambda>r. r_type r = ''missing_index'')
                (recommendations (explainPlanOf e p c))) \<le> 1"
proof -
  let ?recs = "recommendations (explainPlanOf e p c)"
  let ?flag = "perf_isCollectionScan (ep_performance (explainPlanOf e p c))"
  let ?P = "\<lambda>r. r_type r = ''missing_index''"
  have recs: "?recs = generateIndexRecommendations e c"
    by (simp add: explainPlanOf_def)
  have flag: "?flag = isCollectionScan e"
    by (simp add: explainPlanOf_def performanceOf_def)
  have M: "filter ?P ?recs
     = (if ?flag \<and> 0 < length (objectKeys (recFilter c))
        then [missingIndexRec (recFilter c)] else [])"
    unfolding recs flag by (rule missing_index_recommendations)
  have mem: "r \<in> set (filter ?P ?recs)" if "r \<in> set ?recs" "?P r" for r
    using that by simp
  have A: "(\<exists>r \<in> set ?recs. ?P r) \<longleftrightarrow> ?flag \<and> 0 < length (objectKeys (recFilter c))"
  proof
    assume "\<exists>r \<in> set ?recs. ?P r"
    then obtain r where "r \<in> set (filter ?P ?recs)" using mem by blast
    then show "?flag \<and> 0 < length (objectKeys (recFilter c))"
      unfolding M by (simp split: if_splits)
  next
    assume "?flag \<and> 0 < length (objectKeys (recFilter c))"
    then have "missingIndexRec (recFilter c) \<in> set (filter ?P ?recs)"
      unfolding M by simp
    then show "\<exists>r \<in> set ?recs. ?P r" by auto
  qed
  have B: "\<forall>r \<in> set ?recs. ?P r \<longrightarrow>
             r_priority r = ''high'' \<and> r_suggestedIndex r = Some (recFilter c)"
  proof (intro ballI impI)
    fix r assume "r \<in> set ?recs" "?P r"
    then have "r \<in> set (filter ?P ?recs)" by (rule mem)
    then have "r = missingIndexRec (recFilter c)"
      unfolding M by (simp split: if_splits)
    then show "r_priority r = ''high'' \<and> r_suggestedIndex r = Some (recFilter c)"
      by (simp add: missingIndexRec_def)
  qed
  have C: "objectKeys (recFilter c) = [] \<longrightarrow> (\<forall>r \<in> set ?recs. r_type r \<noteq> ''missing_index'')"
  proof (intro impI ballI)
    fix r assume e: "objectKeys (recFilter c) = []" and r: "r \<in> set ?recs"
    show "r_type r \<noteq> ''missing_index''"
    proof
      assume "?P r"
      with r have "r \<in> set (filter ?P ?recs)" by (rule mem)
      then show False unfolding M using e by simp
    qed
  qed
  have D: "length (filter ?P ?recs) \<le> 1"
    unfolding M by simp
  show ?thesis
    by (rule conjI [OF A conjI [OF B conjI [OF C D]]])
qed

theorem C7_missing_index_witness:
  "perf_isCollectionScan
     (ep_performance (explainPlanOf (exExplain None None exCollscan) exOrders
        (commandOf exOrders)))
   \<and> objectKeys (recFilter (commandOf exOrders)) = [''status'']
   \<and> map r_type (recommendations (explainPlanOf (exExplain None None exCollscan)
        exOrders (commandOf exOrders))) = [''missing_index'']
   \<and> r_suggestedIndex (hd (recommendations (explainPlanOf
        (exExplain None None exCollscan) exOrders (commandOf exOrders))))
       = Some (JObj [(''status'', JStr ''pending'')])
   \<and> recommendations (explainPlanOf (exExplain None None exCollscan) exOrders []) = []"
proof -
  let ?e = "exExplain None None exCollscan"
  let ?c = "commandOf exOrders"
  have scan: "isCollectionScan ?e"
    by (simp add: isCollectionScan_def stagesOf_def exExplain_def exCollscan_def exFields_def)
  have flag: "perf_isCollectionScan (ep_performance (explainPlanOf ?e exOrders ?c))"
    using scan by (simp add: explainPlanOf_def performanceOf_def)
  have cmd: "?c = [(''find'', JStr ''orders''), (''filter'', JObj [(''status'', JStr ''pending'')])]"
    by (simp add: commandOf_def exOrders_def exProfile_def)
  have flt: "recFilter ?c = JObj [(''status'', JStr ''pending'')]"
    unfolding cmd by (simp add: recFilter_def getProp_def jsOr_def)
  have keys: "objectKeys (recFilter ?c) = [''status'']"
    unfolding flt by (simp add: objectKeys_def)
  have nokeys: "objectKeys (recFilter []) = []"
    by (simp add: recFilter_def getProp_def jsOr_def objectKeys_def)
  have eff: "efficiencyRecommendations ?e = []"
    by (simp add: efficiencyRecommendations_def Let_def statsOrEmpty_def exExplain_def
          numOr0_def)
  have sort: "objectKeys (recSort ?c) = []" "objectKeys (recSort []) = []"
    unfolding cmd by (simp_all add: recSort_def getProp_def jsOr_def objectKeys_def)
  have recs: "recommendations (explainPlanOf ?e exOrders ?c) = [missingIndexRec (recFilter ?c)]"
    using scan keys sort eff
    by (simp add: explainPlanOf_def generateIndexRecommendations_def scanRecommendations_def
          Let_def)
  have recs0: "recommendations (explainPlanOf ?e exOrders []) = []"
    using scan nokeys sort eff
    by (simp add: explainPlanOf_def generateIndexRecommendations_def scanRecommendations_def
          Let_def)
  have ty: "map r_type (recommendations (explainPlanOf ?e exOrders ?c)) = [''missing_index'']"
    unfolding recs by (simp add: missingIndexRec_def)
  have first: "hd (recommendations (explainPlanOf ?e exOrders ?c))
                 \<in> set (recommendations (explainPlanOf ?e exOrders ?c))
               \<and> r_type (hd (recommendations (explainPlanOf ?e exOrders ?c))) = ''missing_index''"
    unfolding recs by (simp add: missingIndexRec_def)
  from C7_missing_index [of ?e exOrders ?c] first
  have "r_suggestedIndex (hd (recommendations (explainPlanOf ?e exOrders ?c)))
          = Some (recFilter ?c)"
    by blast
  then have sug: "r_suggestedIndex (hd (recommendations (explainPlanOf ?e exOrders ?c)))
          = Some (JObj [(''status'', JStr ''pending'')])"
    unfolding flt .
  show ?thesis
    by (rule conjI [OF flag conjI [OF keys conjI [OF ty conjI [OF sug recs0]]]])
qed



text \<open>
  C9. Whenever a top-level summary counter of the explain result is absent or 0, the
  performance block carries the profiled operation's recorded metric in its place
  (\<open>millis\<close>, \<open>keysExamined\<close>, \<open>docsExamined\<close>, \<open>docsReturned\<close>; 0 when that is absent
  too), and the efficiency is computed from the replaced counter: when both document
  counters of the summary are absent or 0, the efficiency is the one the code computes from
  the historical record alone. A summary counter that is present and not 0 is carried as it
  is, and two such document counters alone determine the efficiency.
\<close>

theorem C9_fallback_to_recorded_metrics:
  "((summaryTimeMillis e = None \<or> summaryTimeMillis e = Some 0) \<longrightarrow>
      perf_executionTimeMillis (performanceOf e p) = counterValue (millis p))
   \<and> ((summaryKeysExamined e = None \<or> summaryKeysExamined e = Some 0) \<longrightarrow>
      perf_totalKeysExamined (performanceOf e p) = counterValue (keysExamined p))
   \<and> ((summaryDocsExamined e = None \<or> summaryDocsExamined e = Some 0) \<longrightarrow>
      perf_totalDocsExamined (performanceOf e p) = counterValue (docsExamined p)
      \<and> efficiency (performanceOf e p)
          = codeEfficiency (counterValue (docsExamined p))
              (effectiveCounter (summaryDocsReturned e) (docsReturned p)))
   \<and> ((summaryDocsReturned e = None \<or> summaryDocsReturned e = Some 0) \<longrightarrow>
      perf_totalDocsReturned (performanceOf e p) = counterValue (docsReturned p)
      \<and> efficiency (performanceOf e p)
          = codeEfficiency (effectiveCounter (summaryDocsExamined e) (docsExamined p))
              (counterValue (docsReturned p)))
   \<and> ((summaryDocsExamined e = None \<or> summaryDocsExamined e = Some 0)
       \<and> (summaryDocsReturned e = None \<or> summaryDocsReturned e = Some 0) \<longrightarrow>
      efficiency (performanceOf e p)
        = codeEfficiency (counterValue (docsExamined p)) (counterValue (docsReturned p)))
   \<and> (\<forall>n. summaryTimeMillis e = Some n \<and> n \<noteq> 0 \<longrightarrow>
         perf_executionTimeMillis (performanceOf e p) = n)
   \<and> (\<forall>n. summaryKeysExamined e = Some n \<and> n \<noteq> 0 \<longrightarrow>
         perf_totalKeysExamined (performanceOf e p) = n)
   \<and> (\<forall>n. summaryDocsExamined e = Some n \<and> n \<noteq> 0 \<longrightarrow>
         perf_totalDocsExamined (performanceOf e p) = n)
   \<and> (\<forall>n. summaryDocsReturned e = Some n \<and> n \<noteq> 0 \<longrightarrow>
         perf_totalDocsReturned (performanceOf e p) = n)
   \<and> (\<forall>x r. summaryDocsExamined e = Some x \<and> x \<noteq> 0
             \<and> summaryDocsReturned e = Some r \<and> r \<noteq> 0 \<longrightarrow>
         efficiency (performanceOf e p) = codeEfficiency x r)"
  by (simp add: performanceOf_counters efficiency_performanceOf calculateEfficiency_effective
        effectiveCounter_fallback effectiveCounter_summary)

theorem C9_fallback_to_recorded_metrics_witness:
  "summaryDocsExamined (exExplain (Some 0) None exCollscan) = Some 0
   \<and> summaryDocsReturned (exExplain (Some 0) None exCollscan) = None
   \<and> perf_totalDocsExamined (performanceOf (exExplain (Some 0) None exCollscan) exOrders) = 50000
   \<and> perf_totalDocsReturned (performanceOf (exExplain (Some 0) None exCollscan) exOrders) = 3
   \<and> perf_executionTimeMillis (performanceOf (exExplain (Some 0) None exCollscan) exOrders) = 420
   \<and> efficiency (performanceOf (exExplain (Some 0) None exCollscan) exOrders)
       = codeEfficiency 50000 3
   \<and> codeEfficiency 50000 3 = 0"
proof -
  have h: "summaryDocsExamined (exExplain (Some 0) None exCollscan) = Some 0
     \<and> summaryDocsReturned (exExplain (Some 0) None exCollscan) = None
     \<and> summaryTimeMillis (exExplain (Some 0) None exCollscan) = None"
    by (simp add: summaryDocsExamined_def summaryDocsReturned_def summaryTimeMillis_def
          exExplain_def)
  have v: "counterValue (docsExamined exOrders) = 50000 \<and> counterValue (docsReturned exOrders) = 3
     \<and> counterValue (millis exOrders) = 420"
    by (simp add: counterValue_def exOrders_def exProfile_def)
  have c: "codeEfficiency 50000 3 = 0"
    by (simp add: codeEfficiency_def eval_3_50000)
  from C9_fallback_to_recorded_metrics [of "exExplain (Some 0) None exCollscan" exOrders] h v c
  show ?thesis by simp
qed

text \<open>
  C10, as the claim states it, fails on the code: the value is a double, and the quotient
  is rounded before it is multiplied by 100. With 3 documents examined and 1 returned the
  utility returns 33.33333333333333 (the double \<open>2345624805922133 / 2^46\<close>), which is not
  \<open>100 * 1 / 3\<close>.
\<close>

theorem C10_counterexample:
  "calculateQueryEfficiency (exProfile ''find'' ''shop.orders'' [] None (Some 3) (Some 1))
     = 2345624805922133 / 70368744177664
   \<and> calculateQueryEfficiency (exProfile ''find'' ''shop.orders'' [] None (Some 3) (Some 1))
     \<noteq> min 100 (max 0 (100 * 1 / 3))"
proof -
  have A: "calculateQueryEfficiency (exProfile ''find'' ''shop.orders'' [] None (Some 3) (Some 1))
     = 2345624805922133 / 70368744177664"
    by (simp add: calculateQueryEfficiency_def exProfile_def numOr0_def eval_1_3)
  show ?thesis
    unfolding A by simp
qed

text \<open>
  C10, amended. The trend-side utility \<open>calculateQueryEfficiency\<close> returns 100 when
  \<open>docsExamined\<close> is 0 or absent, otherwise 0 when \<open>docsReturned\<close> is 0 or absent, and
  otherwise the double-precision product
  \<open>(docsReturned / max(docsExamined, keysExamined)) * 100\<close>, clamped to the range from 0 to
  100 and not rounded to an integer; the product lies within
  \<open>300 * (docsReturned / max) / 2^53\<close> of the exact
  \<open>100 * docsReturned / max(docsExamined, keysExamined)\<close>.
  The value is always between 0 and 100. It has another denominator than the diagnostic
  engine's efficiency: with 10 keys and 3 documents examined and 1 returned it is 10, where
  the engine's formula gives 33.
\<close>

theorem C10_trend_efficiency:
  "((docsExamined doc = None \<or> docsExamined doc = Some 0) \<longrightarrow>
      calculateQueryEfficiency doc = 100)
   \<and> (0 < counterValue (docsExamined doc)
       \<and> (docsReturned doc = None \<or> docsReturned doc = Some 0) \<longrightarrow>
      calculateQueryEfficiency doc = 0)
   \<and> (0 < counterValue (docsExamined doc) \<and> 0 < counterValue (docsReturned doc) \<longrightarrow>
      calculateQueryEfficiency doc
        = min 100 (max 0 (jsMul (jsDiv (of_nat (counterValue (docsReturned doc)))
                                       (of_nat (max (counterValue (docsExamined doc))
                                                    (counterValue (keysExamined doc))))) 100))
      \<and> \<bar>jsMul (jsDiv (of_nat (counterValue (docsReturned doc)))
                      (of_nat (max (counterValue (docsExamined doc))
                                   (counterValue (keysExamined doc))))) 100
           - 100 * of_nat (counterValue (docsReturned doc))
               / of_nat (max (counterValue (docsExamined doc))
                             (counterValue (keysExamined doc)))\<bar>
        \<le> 300 * (of_nat (counterValue (docsReturned doc))
                  / of_nat (max (counterValue (docsExamined doc))
                                (counterValue (keysExamined doc)))) / 2 ^ 53)
   \<and> 0 \<le> calculateQueryEfficiency doc
   \<and> calculateQueryEfficiency doc \<le> 100"
proof -
  have A: "(docsExamined doc = None \<or> docsExamined doc = Some 0) \<longrightarrow>
      calculateQueryEfficiency doc = 100"
    by (auto simp: calculateQueryEfficiency_def numOr0_def)
  have B: "0 < counterValue (docsExamined doc)
       \<and> (docsReturned doc = None \<or> docsReturned doc = Some 0) \<longrightarrow>
      calculateQueryEfficiency doc = 0"
    by (auto simp: calculateQueryEfficiency_def numOr0_counterValue counterValue_def)
  let ?r = "counterValue (docsReturned doc)"
  let ?m = "max (counterValue (docsExamined doc)) (counterValue (keysExamined doc))"
  have C: "0 < counterValue (docsExamined doc) \<and> 0 < ?r \<longrightarrow>
      calculateQueryEfficiency doc = min 100 (max 0 (jsMul (jsDiv (of_nat ?r) (of_nat ?m)) 100))
      \<and> \<bar>jsMul (jsDiv (of_nat ?r) (of_nat ?m)) 100 - 100 * of_nat ?r / of_nat ?m\<bar>
        \<le> 300 * (of_nat ?r / of_nat ?m) / 2 ^ 53"
  proof (intro impI, elim conjE)
    assume pos: "0 < counterValue (docsExamined doc)" "0 < ?r"
    then have m: "0 < ?m" by simp
    have 1: "calculateQueryEfficiency doc
               = min 100 (max 0 (jsMul (jsDiv (of_nat ?r) (of_nat ?m)) 100))"
      using pos by (simp add: calculateQueryEfficiency_def numOr0_counterValue Let_def)
    have 2: "\<bar>jsMul (jsDiv (of_nat ?r) (of_nat ?m)) 100 - 100 * of_nat ?r / of_nat ?m\<bar>
        \<le> 300 * (of_nat ?r / of_nat ?m) / 2 ^ 53"
      by (rule percent_of_counters(1) [OF m])
    show "calculateQueryEfficiency doc = min 100 (max 0 (jsMul (jsDiv (of_nat ?r) (of_nat ?m)) 100))
      \<and> \<bar>jsMul (jsDiv (of_nat ?r) (of_nat ?m)) 100 - 100 * of_nat ?r / of_nat ?m\<bar>
        \<le> 300 * (of_nat ?r / of_nat ?m) / 2 ^ 53"
      by (rule conjI [OF 1 2])
  qed
  have D: "0 \<le> calculateQueryEfficiency doc"
    by (simp add: calculateQueryEfficiency_def Let_def)
  have E: "calculateQueryEfficiency doc \<le> 100"
    by (simp add: calculateQueryEfficiency_def Let_def)
  show ?thesis
    by (rule conjI [OF A conjI [OF B conjI [OF C conjI [OF D E]]]])
qed

theorem C10_trend_efficiency_witness:
  "0 < counterValue (docsExamined (exProfile ''find'' ''shop.orders'' [] (Some 10) (Some 3) (Some 1)))
   \<and> 0 < counterValue (docsReturned (exProfile ''find'' ''shop.orders'' [] (Some 10) (Some 3) (Some 1)))
   \<and> calculateQueryEfficiency (exProfile ''find'' ''shop.orders'' [] (Some 10) (Some 3) (Some 1)) = 10
   \<and> codeEfficiency 3 1 = 33
   \<and> calculateQueryEfficiency (exProfile ''find'' ''shop.orders'' [] None (Some 3) (Some 1))
       = 2345624805922133 / 70368744177664"
proof -
  let ?d = "exProfile ''find'' ''shop.orders'' [] (Some 10) (Some 3) (Some 1)"
  let ?d2 = "exProfile ''find'' ''shop.orders'' [] None (Some 3) (Some 1)"
  have v: "counterValue (docsExamined ?d) = 3" "counterValue (docsReturned ?d) = 1"
     "counterValue (keysExamined ?d) = 10"
    by (simp_all add: counterValue_def exProfile_def)
  have v2: "counterValue (docsExamined ?d2) = 3" "counterValue (docsReturned ?d2) = 1"
     "counterValue (keysExamined ?d2) = 0"
    by (simp_all add: counterValue_def exProfile_def)
  have p: "0 < counterValue (docsExamined ?d) \<and> 0 < counterValue (docsReturned ?d)"
    unfolding v by simp
  have p2: "0 < counterValue (docsExamined ?d2) \<and> 0 < counterValue (docsReturned ?d2)"
    unfolding v2 by simp
  have s: "codeEfficiency 3 1 = 33"
    by (simp add: codeEfficiency_def Math_round_def eval_1_3 floor_divide_numeral_rat)
  from C10_trend_efficiency [of ?d] p
  have "calculateQueryEfficiency ?d
        = min 100 (max 0 (jsMul (jsDiv (of_nat (counterValue (docsReturned ?d)))
                                       (of_nat (max (counterValue (docsExamined ?d))
                                                    (counterValue (keysExamined ?d))))) 100))"
    by blast
  then have a: "calculateQueryEfficiency ?d = 10"
    unfolding v by (simp add: eval_1_10)
  from C10_trend_efficiency [of ?d2] p2
  have "calculateQueryEfficiency ?d2
        = min 100 (max 0 (jsMul (jsDiv (of_nat (counterValue (docsReturned ?d2)))
                                       (of_nat (max (counterValue (docsExamined ?d2))
                                                    (counterValue (keysExamined ?d2))))) 100))"
    by blast
  then have b: "calculateQueryEfficiency ?d2 = 2345624805922133 / 70368744177664"
    unfolding v2 by (simp add: eval_1_3)
  from p have p': "0 < counterValue (docsExamined ?d)" "0 < counterValue (docsReturned ?d)"
    by simp_all
  show ?thesis
    by (rule conjI [OF p'(1) conjI [OF p'(2) conjI [OF a conjI [OF s b]]]])
qed


end
